theory Spec2Isabelle
  imports Main
begin

section \<open>The values server.js handles\<close>

text \<open>
  \<^verbatim>\<open>server.js\<close> is a Node.js HTTP server that keeps one JSON document,
  \<^verbatim>\<open>data.json\<close>, of the form \<^verbatim>\<open>{ columns: [...], records: [...] }\<close>.
  Its functions are embedded below one by one, under their own names.

  \<^verbatim>\<open>JSON.parse\<close> and \<^verbatim>\<open>JSON.stringify\<close> belong to the runtime, not to the
  file. A text is therefore represented by what \<^verbatim>\<open>JSON.parse\<close> makes of it:
  either it is rejected, or it denotes a value of type \<open>json\<close>. A number is held as
  its canonical decimal rendering (what \<^verbatim>\<open>Number.prototype.toString\<close> prints,
  \<open>''0''\<close> for both zeros); that rendering decides everything the server asks of
  a number: whether it is zero, whether two numbers are the same, and which property key
  it names. Number literals that overflow to an infinity are outside the model. The
  entries of \<open>JObj\<close> are the object's own properties in enumeration order.
\<close>

datatype json =
    JNull
  | JBool bool
  | JNum string
  | JStr string
  | JArr "json list"
  | JObj "(string \<times> json) list"

text \<open>
  Reading a property can also give \<^verbatim>\<open>undefined\<close>, or a member inherited from
  \<^verbatim>\<open>Object.prototype\<close> (a function, or for \<^verbatim>\<open>__proto__\<close> the prototype
  object itself). Such a member is truthy, and \<^verbatim>\<open>JSON.stringify\<close> leaves a property
  that holds one out of its output.
\<close>

datatype jsval = Undefined | Inherited | Value json

definition Object_prototype :: "string list" where
  "Object_prototype =
     [''constructor'', ''__defineGetter__'', ''__defineSetter__'', ''hasOwnProperty'',
      ''__lookupGetter__'', ''__lookupSetter__'', ''isPrototypeOf'',
      ''propertyIsEnumerable'', ''toString'', ''valueOf'', ''__proto__'',
      ''toLocaleString'']"

definition object_get :: "(string \<times> json) list \<Rightarrow> string \<Rightarrow> jsval" where
  "object_get kvs k =
     (case map_of kvs k of
        Some v \<Rightarrow> Value v
      | None \<Rightarrow> if k \<in> set Object_prototype then Inherited else Undefined)"

text \<open>
  \<open>property v k\<close> is the read \<^verbatim>\<open>v[k]\<close>. On \<^verbatim>\<open>null\<close> it throws a TypeError.
  The server reads from an array or a primitive only the name \<^verbatim>\<open>columns\<close> (when it
  destructures the body of \<^verbatim>\<open>POST /api/columns\<close>), which none of them has; every
  other read is from a value that passed the \<^verbatim>\<open>typeof\<close> test for an object.
\<close>

datatype js_error = Error string | SystemError string | SyntaxError | TypeError

fun property :: "json \<Rightarrow> string \<Rightarrow> js_error + jsval" where
  "property JNull k = Inl TypeError"
| "property (JObj kvs) k = Inr (object_get kvs k)"
| "property _ k = Inr Undefined"

fun truthy :: "jsval \<Rightarrow> bool" where
  "truthy Undefined = False"
| "truthy Inherited = True"
| "truthy (Value JNull) = False"
| "truthy (Value (JBool b)) = b"
| "truthy (Value (JNum n)) = (n \<noteq> ''0'')"
| "truthy (Value (JStr s)) = (s \<noteq> [])"
| "truthy (Value (JArr xs)) = True"
| "truthy (Value (JObj kvs)) = True"

fun typeof :: "json \<Rightarrow> string" where
  "typeof JNull = ''object''"
| "typeof (JBool b) = ''boolean''"
| "typeof (JNum n) = ''number''"
| "typeof (JStr s) = ''string''"
| "typeof (JArr xs) = ''object''"
| "typeof (JObj kvs) = ''object''"

fun isArray :: "jsval \<Rightarrow> bool" where
  "isArray (Value (JArr xs)) = True"
| "isArray _ = False"

text \<open>
  \<^verbatim>\<open>Array.prototype.includes\<close> compares with SameValueZero: primitives by value,
  arrays and objects by identity. The stored columns and the columns of a request body
  come from two separate \<^verbatim>\<open>JSON.parse\<close> calls, so an array or an object among them is
  never the same as one of the other side.
\<close>

fun SameValueZero :: "json \<Rightarrow> json \<Rightarrow> bool" where
  "SameValueZero (JArr xs) y = False"
| "SameValueZero (JObj kvs) y = False"
| "SameValueZero x y = (x = y)"

definition includes_elem :: "json list \<Rightarrow> json \<Rightarrow> bool" where
  "includes_elem xs x = list_ex (\<lambda>y. SameValueZero y x) xs"

text \<open>
  A column used as a property key is converted by \<^verbatim>\<open>ToString\<close>. An array prints
  its elements joined by commas, \<^verbatim>\<open>null\<close> elements as nothing. An object prints as
  \<^verbatim>\<open>[object Object]\<close> through the \<^verbatim>\<open>toString\<close> it inherits; an object with an own
  property \<^verbatim>\<open>toString\<close> (never a function, coming from JSON) cannot be converted,
  and the conversion throws a TypeError.
\<close>

fun ToString :: "json \<Rightarrow> js_error + string"
  and join_elements :: "json list \<Rightarrow> js_error + string" where
  "ToString JNull = Inr ''null''"
| "ToString (JBool b) = Inr (if b then ''true'' else ''false'')"
| "ToString (JNum n) = Inr n"
| "ToString (JStr s) = Inr s"
| "ToString (JArr xs) = join_elements xs"
| "ToString (JObj kvs) =
     (if map_of kvs ''toString'' = None then Inr ''[object Object]'' else Inl TypeError)"
| "join_elements [] = Inr []"
| "join_elements (x # xs) =
     (case (if x = JNull then Inr [] else ToString x) of
        Inl e \<Rightarrow> Inl e
      | Inr s \<Rightarrow>
          if xs = [] then Inr s
          else (case join_elements xs of Inl e \<Rightarrow> Inl e | Inr t \<Rightarrow> Inr (s @ '','' @ t)))"

section \<open>The data file\<close>

text \<open>
  \<open>'v data\<close> is the object with the fields \<^verbatim>\<open>columns\<close> and \<^verbatim>\<open>records\<close>. In
  the file every value of a record is JSON (\<open>dataset\<close>); in memory a record
  can also hold an inherited member (\<open>jsval data\<close>). A record is the map of its own
  properties. \<open>JSON_parse\<close> is the object graph built from the file's text and
  \<open>JSON_stringify\<close> the document that the written text denotes.

  The file is taken to hold, when it holds JSON at all, a document of this shape: that
  is what the server itself writes.
\<close>

record 'v data =
  columns :: "json list"
  records :: "(string \<rightharpoonup> 'v) list"

type_synonym dataset = "json data"

definition JSON_parse :: "dataset \<Rightarrow> jsval data" where
  "JSON_parse d =
     \<lparr>columns = columns d, records = map (\<lambda>r k. map_option Value (r k)) (records d)\<rparr>"

definition stringify_object :: "(string \<rightharpoonup> jsval) \<Rightarrow> (string \<rightharpoonup> json)" where
  "stringify_object r = (\<lambda>k. case r k of Some (Value v) \<Rightarrow> Some v | _ \<Rightarrow> None)"

definition JSON_stringify :: "jsval data \<Rightarrow> dataset" where
  "JSON_stringify d = \<lparr>columns = columns d, records = map stringify_object (records d)\<rparr>"

text \<open>
  The state of the file is what \<^verbatim>\<open>fs.readFile\<close> followed by \<^verbatim>\<open>JSON.parse\<close>
  gives: a system error with its code (\<^verbatim>\<open>ENOENT\<close> when there is no file), a
  SyntaxError, or the document. A write can fail too: refused with the file left as it
  was, or broken off with the file left truncated. \<open>calls\<close> records every call made
  to the file system.
\<close>

datatype file_state = ReadError string | NotJSON | Holds dataset

datatype write_fault = Refused string | Torn string

datatype fs_call = ReadFile | WriteFile

record store =
  DATA_FILE :: file_state
  fault :: "write_fault option"
  calls :: "fs_call list"

definition writeFile :: "dataset \<Rightarrow> store \<Rightarrow> (js_error + unit) \<times> store" where
  "writeFile doc st =
     (let st' = st\<lparr>calls := calls st @ [WriteFile]\<rparr> in
      case fault st of
        None \<Rightarrow> (Inr (), st'\<lparr>DATA_FILE := Holds doc\<rparr>)
      | Some (Refused code) \<Rightarrow> (Inl (SystemError code), st')
      | Some (Torn code) \<Rightarrow> (Inl (SystemError code), st'\<lparr>DATA_FILE := NotJSON\<rparr>))"

definition readData :: "store \<Rightarrow> (js_error + jsval data) \<times> store" where
  "readData st =
     (let st1 = st\<lparr>calls := calls st @ [ReadFile]\<rparr> in
      case DATA_FILE st of
        Holds d \<Rightarrow> (Inr (JSON_parse d), st1)
      | NotJSON \<Rightarrow> (Inl SyntaxError, st1)
      | ReadError code \<Rightarrow>
          if code = ''ENOENT'' then
            (let initialData = \<lparr>columns = [], records = []\<rparr> in
             case writeFile (JSON_stringify initialData) st1 of
               (Inl e, st2) \<Rightarrow> (Inl e, st2)
             | (Inr u, st2) \<Rightarrow> (Inr initialData, st2))
          else (Inl (SystemError code), st1))"

definition writeData :: "jsval data \<Rightarrow> store \<Rightarrow> (js_error + unit) \<times> store" where
  "writeData d st = writeFile (JSON_stringify d) st"

section \<open>Requests and responses\<close>

text \<open>
  The body of a request is the text collected from the stream until it ends: empty,
  rejected by \<^verbatim>\<open>JSON.parse\<close>, or denoting a value; or the stream fails first.
\<close>

datatype stream = NoBody | BadJSON | JSONText json | Aborted js_error

record request =
  method' :: string
  url :: string
  body :: stream

definition parseBody :: "request \<Rightarrow> js_error + json" where
  "parseBody req =
     (case body req of
        Aborted e \<Rightarrow> Inl e
      | NoBody \<Rightarrow> Inr (JObj [])
      | BadJSON \<Rightarrow> Inl (Error ''Invalid JSON in request body'')
      | JSONText v \<Rightarrow> Inr v)"

text \<open>
  A response body is the JSON text of the whole data object, of \<^verbatim>\<open>{message}\<close>, or of
  \<^verbatim>\<open>{message: 'Internal Server Error', error}\<close> with the message of the error caught.
\<close>

datatype 'd payload = Whole 'd | Message string | InternalServerError js_error

record response =
  status :: nat
  headers :: "(string \<times> string) list"
  content :: "dataset payload option"

definition sendResponse :: "nat \<Rightarrow> jsval data payload \<Rightarrow> response" where
  "sendResponse statusCode d =
     \<lparr>status = statusCode,
      headers =
        [(''Content-Type'', ''application/json''),
         (''Access-Control-Allow-Origin'', ''*''),
         (''Access-Control-Allow-Methods'', ''GET, POST, DELETE, OPTIONS''),
         (''Access-Control-Allow-Headers'', ''Content-Type'')],
      content = Some (map_payload JSON_stringify d)\<rparr>"

definition handleOptions :: response where
  "handleOptions =
     \<lparr>status = 204,
      headers =
        [(''Access-Control-Allow-Origin'', ''*''),
         (''Access-Control-Allow-Methods'', ''GET, POST, DELETE, OPTIONS''),
         (''Access-Control-Allow-Headers'', ''Content-Type''),
         (''Content-Length'', ''0'')],
      content = None\<rparr>"

subsection \<open>The index of a record in the URL\<close>

fun split :: "char \<Rightarrow> string \<Rightarrow> string list" where
  "split sep [] = [[]]"
| "split sep (c # cs) =
     (if c = sep then [] # split sep cs
      else case split sep cs of p # ps \<Rightarrow> (c # p) # ps | [] \<Rightarrow> [[c]])"

definition startsWith :: "string \<Rightarrow> string \<Rightarrow> bool" where
  "startsWith s p = (take (length p) s = p)"

text \<open>
  \<^verbatim>\<open>parseInt\<close> with no radix: leading white space and one sign are skipped, the prefix
  \<^verbatim>\<open>0x\<close> or \<^verbatim>\<open>0X\<close> selects radix 16, and the longest run of digits that follows is
  read, whatever comes after it. \<open>None\<close> is \<^verbatim>\<open>NaN\<close>. The characters of a request
  URL are single bytes, so these are all the white space characters there are.
\<close>

definition StrWhiteSpaceChar :: "char \<Rightarrow> bool" where
  "StrWhiteSpaceChar c =
     (c \<in> set [CHR 0x09, CHR 0x0A, CHR 0x0B, CHR 0x0C, CHR 0x0D, CHR 0x20, CHR 0xA0])"

definition digit_value :: "nat \<Rightarrow> char \<Rightarrow> nat option" where
  "digit_value R c =
     (let n = (of_char c :: nat);
          d = (if 48 \<le> n \<and> n \<le> 57 then Some (n - 48)
               else if 97 \<le> n \<and> n \<le> 122 then Some (n - 87)
               else if 65 \<le> n \<and> n \<le> 90 then Some (n - 55)
               else None)
      in case d of Some v \<Rightarrow> if v < R then Some v else None | None \<Rightarrow> None)"

definition digits_value :: "nat \<Rightarrow> string \<Rightarrow> nat" where
  "digits_value R Z =
     foldl (\<lambda>acc c. acc * R + (case digit_value R c of Some d \<Rightarrow> d | None \<Rightarrow> 0)) 0 Z"

definition parseInt :: "string \<Rightarrow> int option" where
  "parseInt inputString =
     (let S = dropWhile StrWhiteSpaceChar inputString;
          sign = (if S \<noteq> [] \<and> hd S = CHR ''-'' then - 1 else 1);
          S1 = (if S \<noteq> [] \<and> (hd S = CHR ''+'' \<or> hd S = CHR ''-'') then tl S else S);
          hex = (take 2 S1 = ''0x'' \<or> take 2 S1 = ''0X'');
          R = (if hex then 16 else 10);
          S2 = (if hex then drop 2 S1 else S1);
          Z = takeWhile (\<lambda>c. digit_value R c \<noteq> None) S2
      in if Z = [] then None else Some (sign * int (digits_value R Z)))"

text \<open>
  \<^verbatim>\<open>urlParts[3]\<close>; a missing part is \<^verbatim>\<open>undefined\<close>, which \<^verbatim>\<open>parseInt\<close> reads as
  the text \<^verbatim>\<open>undefined\<close>.
\<close>

definition indexStr :: "string list \<Rightarrow> string" where
  "indexStr urlParts = (if 3 < length urlParts then urlParts ! 3 else ''undefined'')"

definition splice :: "nat \<Rightarrow> 'a list \<Rightarrow> 'a list" where
  "splice i xs = take i xs @ drop (Suc i) xs"

section \<open>The request handler\<close>

text \<open>
  The object \<^verbatim>\<open>validRecord\<close> while it is built: its own properties, and its prototype
  when an assignment has replaced \<^verbatim>\<open>Object.prototype\<close> by a value of the body.

  \<^verbatim>\<open>validRecord[key] = v\<close> creates or overwrites an own property, except when the
  assignment reaches the \<^verbatim>\<open>__proto__\<close> setter of \<^verbatim>\<open>Object.prototype\<close>: the name is
  \<^verbatim>\<open>__proto__\<close>, the object has no own property of that name, and neither has its
  prototype. The setter makes an object or an array the new prototype, ignores a
  primitive, and creates no property. An inherited value under that name is
  \<^verbatim>\<open>Object.prototype\<close> itself. \<open>has_own\<close> is asked for that name only, which
  an object from JSON can have as an own property and an array cannot.
\<close>

type_synonym jsobject = "(string \<rightharpoonup> jsval) \<times> json option"

fun has_own :: "json \<Rightarrow> string \<Rightarrow> bool" where
  "has_own (JObj kvs) k = (map_of kvs k \<noteq> None)"
| "has_own _ k = False"

definition set_property :: "jsobject \<Rightarrow> string \<Rightarrow> jsval \<Rightarrow> jsobject" where
  "set_property validRecord key v =
     (let props = fst validRecord; proto = snd validRecord in
      if key = ''__proto__'' \<and> props key = None \<and>
         \<not> (case proto of Some P \<Rightarrow> has_own P key | None \<Rightarrow> False)
      then
        (case v of
           Value (JObj kvs) \<Rightarrow> (props, Some (JObj kvs))
         | Value (JArr xs) \<Rightarrow> (props, Some (JArr xs))
         | Inherited \<Rightarrow> (props, None)
         | _ \<Rightarrow> (props, proto))
      else (props(key \<mapsto> v), proto))"

text \<open>
  \<open>or_empty v\<close> is \<^verbatim>\<open>v || ''\<close>, and \<open>forEach_col\<close> the loop
  \<^verbatim>\<open>data.columns.forEach(col => { validRecord[col] = newRecord[col] || ''; })\<close>; a
  conversion of the column or a read that throws ends it.
\<close>

definition or_empty :: "jsval \<Rightarrow> jsval" where
  "or_empty v = (if truthy v then v else Value (JStr ''''))"

fun forEach_col :: "json \<Rightarrow> json list \<Rightarrow> jsobject \<Rightarrow> js_error + jsobject" where
  "forEach_col newRecord [] validRecord = Inr validRecord"
| "forEach_col newRecord (col # cols) validRecord =
     (case ToString col of
        Inl e \<Rightarrow> Inl e
      | Inr key \<Rightarrow>
          (case property newRecord key of
             Inl e \<Rightarrow> Inl e
           | Inr v \<Rightarrow> forEach_col newRecord cols (set_property validRecord key (or_empty v))))"

text \<open>
  \<open>forEach_delete\<close> is \<^verbatim>\<open>removedCols.forEach(col => delete newRecord[col])\<close> on the
  copy of a record, and \<open>map_records\<close> the \<^verbatim>\<open>data.records.map\<close> around it. A column
  that cannot be converted to a key throws as soon as there is a record to prune.
\<close>

fun forEach_delete :: "json list \<Rightarrow> (string \<rightharpoonup> 'v) \<Rightarrow> js_error + (string \<rightharpoonup> 'v)" where
  "forEach_delete [] newRecord = Inr newRecord"
| "forEach_delete (col # cols) newRecord =
     (case ToString col of
        Inl e \<Rightarrow> Inl e
      | Inr key \<Rightarrow> forEach_delete cols (newRecord(key := None)))"

fun map_records ::
  "json list \<Rightarrow> (string \<rightharpoonup> 'v) list \<Rightarrow> js_error + (string \<rightharpoonup> 'v) list" where
  "map_records removedCols [] = Inr []"
| "map_records removedCols (record # rest) =
     (case forEach_delete removedCols record of
        Inl e \<Rightarrow> Inl e
      | Inr newRecord \<Rightarrow>
          (case map_records removedCols rest of
             Inl e \<Rightarrow> Inl e
           | Inr updated \<Rightarrow> Inr (newRecord # updated)))"

text \<open>The four routes, each the body of one \<^verbatim>\<open>if\<close> of the \<^verbatim>\<open>try\<close> block.\<close>

definition GET_data :: "store \<Rightarrow> (js_error + response) \<times> store" where
  "GET_data st =
     (case readData st of
        (Inl e, st1) \<Rightarrow> (Inl e, st1)
      | (Inr d, st1) \<Rightarrow> (Inr (sendResponse 200 (Whole d)), st1))"

definition POST_columns :: "request \<Rightarrow> store \<Rightarrow> (js_error + response) \<times> store" where
  \<open>POST_columns req st =
     (case parseBody req of
        Inl e \<Rightarrow> (Inl e, st)
      | Inr b \<Rightarrow>
          (case property b ''columns'' of
             Inl e \<Rightarrow> (Inl e, st)
           | Inr newColumns \<Rightarrow>
               (case newColumns of
                  Value (JArr cols) \<Rightarrow>
                    (case readData st of
                       (Inl e, st1) \<Rightarrow> (Inl e, st1)
                     | (Inr d, st1) \<Rightarrow>
                         (let oldColumns = columns d;
                              removedCols = filter (\<lambda>col. \<not> includes_elem cols col) oldColumns
                          in case map_records removedCols (records d) of
                               Inl e \<Rightarrow> (Inl e, st1)
                             | Inr updatedRecords \<Rightarrow>
                                 (let d' = d\<lparr>columns := cols, records := updatedRecords\<rparr>
                                  in case writeData d' st1 of
                                       (Inl e, st2) \<Rightarrow> (Inl e, st2)
                                     | (Inr u, st2) \<Rightarrow>
                                         (Inr (sendResponse 200 (Whole d')), st2))))
                | _ \<Rightarrow>
                    (Inr (sendResponse 400
                            (Message ''Invalid format: "columns" must be an array.'')), st))))\<close>

definition POST_records :: "request \<Rightarrow> store \<Rightarrow> (js_error + response) \<times> store" where
  "POST_records req st =
     (case parseBody req of
        Inl e \<Rightarrow> (Inl e, st)
      | Inr newRecord \<Rightarrow>
          if typeof newRecord \<noteq> ''object'' \<or> isArray (Value newRecord) then
            (Inr (sendResponse 400
                    (Message ''Invalid format: Request body must be a single record object.'')),
             st)
          else
            (case readData st of
               (Inl e, st1) \<Rightarrow> (Inl e, st1)
             | (Inr d, st1) \<Rightarrow>
                 (case forEach_col newRecord (columns d) (Map.empty, None) of
                    Inl e \<Rightarrow> (Inl e, st1)
                  | Inr validRecord \<Rightarrow>
                      (let d' = d\<lparr>records := records d @ [fst validRecord]\<rparr>
                       in case writeData d' st1 of
                            (Inl e, st2) \<Rightarrow> (Inl e, st2)
                          | (Inr u, st2) \<Rightarrow> (Inr (sendResponse 201 (Whole d')), st2)))))"

definition DELETE_records :: "string list \<Rightarrow> store \<Rightarrow> (js_error + response) \<times> store" where
  "DELETE_records urlParts st =
     (let index = parseInt (indexStr urlParts) in
      case readData st of
        (Inl e, st1) \<Rightarrow> (Inl e, st1)
      | (Inr d, st1) \<Rightarrow>
          (case index of
             None \<Rightarrow>
               (Inr (sendResponse 404 (Message ''Invalid or out of bounds record index.'')), st1)
           | Some i \<Rightarrow>
               if i < 0 \<or> i \<ge> int (length (records d)) then
                 (Inr (sendResponse 404 (Message ''Invalid or out of bounds record index.'')),
                  st1)
               else
                 (let d' = d\<lparr>records := splice (nat i) (records d)\<rparr>
                  in case writeData d' st1 of
                       (Inl e, st2) \<Rightarrow> (Inl e, st2)
                     | (Inr u, st2) \<Rightarrow> (Inr (sendResponse 200 (Whole d')), st2))))"

text \<open>
  \<open>try_block\<close> is the \<^verbatim>\<open>try\<close> block of \<^verbatim>\<open>requestListener\<close>: \<open>Inl\<close> is an
  error thrown inside it. \<open>requestListener\<close> answers \<^verbatim>\<open>OPTIONS\<close> first and turns
  every error caught into the response 500.
\<close>

definition try_block :: "request \<Rightarrow> string list \<Rightarrow> store \<Rightarrow> (js_error + response) \<times> store" where
  "try_block req urlParts st =
     (if method' req = ''GET'' \<and> url req = ''/api/data'' then GET_data st
      else if method' req = ''POST'' \<and> url req = ''/api/columns'' then POST_columns req st
      else if method' req = ''POST'' \<and> url req = ''/api/records'' then POST_records req st
      else if method' req = ''DELETE'' \<and> startsWith (url req) ''/api/records/'' then
        DELETE_records urlParts st
      else (Inr (sendResponse 404 (Message ''Not Found'')), st))"

definition requestListener :: "request \<Rightarrow> store \<Rightarrow> response \<times> store" where
  "requestListener req st =
     (let urlParts = split CHR ''/'' (url req) in
      if method' req = ''OPTIONS'' then (handleOptions, st)
      else
        case try_block req urlParts st of
          (Inr res, st') \<Rightarrow> (res, st')
        | (Inl error, st') \<Rightarrow> (sendResponse 500 (InternalServerError error), st'))"

section \<open>Notions used in the statements\<close>

text \<open>
  The specification's reading of the index of \<^verbatim>\<open>DELETE /api/records/{index}\<close>: the
  whole path segment is a base-10 integer, an optional minus sign followed by decimal
  digits and nothing else.
\<close>

definition spec_base10_integer :: "string \<Rightarrow> int option" where
  "spec_base10_integer s =
     (let neg = (s \<noteq> [] \<and> hd s = CHR ''-'');
          ds = (if neg then tl s else s)
      in if ds \<noteq> [] \<and> list_all (\<lambda>c. digit_value 10 c \<noteq> None) ds
         then Some ((if neg then - 1 else 1) * int (digits_value 10 ds))
         else None)"

text \<open>
  The specification's reading of the route \<^verbatim>\<open>DELETE /api/records/{index}\<close>: the URL is
  \<^verbatim>\<open>/api/records/\<close> followed by one path segment, the index, with no further slash.
\<close>

definition spec_delete_route :: "string \<Rightarrow> bool" where
  "spec_delete_route u =
     (startsWith u ''/api/records/'' \<and> CHR ''/'' \<notin> set (drop (length ''/api/records/'') u))"

text \<open>
  A document of strings: every column is a string and every value of every record is a
  string. A request of strings: the \<^verbatim>\<open>columns\<close> it posts are strings, and the fields
  of a record it posts are strings.
\<close>

definition is_string :: "json \<Rightarrow> bool" where
  "is_string v = (typeof v = ''string'')"

definition string_dataset :: "dataset \<Rightarrow> bool" where
  "string_dataset d =
     ((\<forall>c \<in> set (columns d). is_string c) \<and>
      (\<forall>r \<in> set (records d). \<forall>v \<in> ran r. is_string v))"

definition strings_request :: "request \<Rightarrow> bool" where
  "strings_request req =
     (case body req of
        JSONText (JObj kvs) \<Rightarrow>
          if url req = ''/api/columns'' then
            (case map_of kvs ''columns'' of
               Some (JArr cols) \<Rightarrow> list_all is_string cols
             | _ \<Rightarrow> True)
          else list_all (\<lambda>(k, v). is_string v) kvs
      | _ \<Rightarrow> True)"

text \<open>
  Ordinary columns are strings that do not name a member of \<^verbatim>\<open>Object.prototype\<close>.
  \<open>ordinary_record cols kvs\<close> has exactly the columns as keys, each holding the field
  of that name among the own properties \<open>kvs\<close> of the body when it is present and
  truthy, and the empty string otherwise.
\<close>

definition ordinary_columns :: "json list \<Rightarrow> bool" where
  "ordinary_columns cols = (\<forall>c \<in> set cols. \<exists>s. c = JStr s \<and> s \<notin> set Object_prototype)"

definition ordinary_record :: "json list \<Rightarrow> (string \<times> json) list \<Rightarrow> (string \<rightharpoonup> json)" where
  "ordinary_record cols kvs =
     (\<lambda>k. if JStr k \<in> set cols then
            Some (case map_of kvs k of
                    Some v \<Rightarrow> if truthy (Value v) then v else JStr ''''
                  | None \<Rightarrow> JStr '''')
          else None)"

section \<open>Facts about the store\<close>

lemma stringify_parse_object [simp]:
  "stringify_object (\<lambda>k. map_option Value (r k)) = r"
proof
  fix k
  show "stringify_object (\<lambda>k. map_option Value (r k)) k = r k"
    by (cases "r k") (simp_all add: stringify_object_def)
qed

lemma stringify_parse_comp [simp]:
  "stringify_object \<circ> (\<lambda>r k. map_option Value (r k)) = (\<lambda>r. r)"
  by (rule ext) simp

lemma stringify_parse_records [simp]:
  "map stringify_object (map (\<lambda>r k. map_option Value (r k)) rs) = rs"
  by (induction rs) simp_all

lemma stringify_parse [simp]: "JSON_stringify (JSON_parse d) = d"
  by (simp add: JSON_stringify_def JSON_parse_def)

lemma stringify_initial [simp]:
  "JSON_stringify \<lparr>columns = [], records = []\<rparr> = \<lparr>columns = [], records = []\<rparr>"
  by (simp add: JSON_stringify_def)

lemma readData_Holds:
  "DATA_FILE st = Holds d \<Longrightarrow>
     readData st = (Inr (JSON_parse d), st\<lparr>calls := calls st @ [ReadFile]\<rparr>)"
  by (simp add: readData_def)

lemma writeData_ok:
  "fault st = None \<Longrightarrow>
     writeData m st =
       (Inr (), st\<lparr>calls := calls st @ [WriteFile], DATA_FILE := Holds (JSON_stringify m)\<rparr>)"
  by (simp add: writeData_def writeFile_def)

text \<open>The definitions that evaluate the handler on a concrete request.\<close>

lemmas eval_defs =
  requestListener_def try_block_def startsWith_def GET_data_def POST_columns_def
  POST_records_def DELETE_records_def parseBody_def indexStr_def readData_def writeData_def
  writeFile_def Let_def parseInt_def StrWhiteSpaceChar_def digit_value_def digits_value_def
  sendResponse_def JSON_parse_def JSON_stringify_def set_property_def or_empty_def
  object_get_def Object_prototype_def includes_elem_def

section \<open>Preflight requests and unmatched routes\<close>

text \<open>
  C10. Every \<^verbatim>\<open>OPTIONS\<close> request, whatever its path and body, is answered 204 with the
  three cross-origin headers, \<^verbatim>\<open>Content-Length: 0\<close> and no body, and the store is
  returned as it was: the file is the same and no call to the file system was added, so
  neither a load nor a save took place.
\<close>

theorem options_preflight:
  assumes "method' req = ''OPTIONS''"
  shows "requestListener req st =
           (\<lparr>status = 204,
             headers =
               [(''Access-Control-Allow-Origin'', ''*''),
                (''Access-Control-Allow-Methods'', ''GET, POST, DELETE, OPTIONS''),
                (''Access-Control-Allow-Headers'', ''Content-Type''),
                (''Content-Length'', ''0'')],
             content = None\<rparr>, st)"
  using assms by (simp add: requestListener_def handleOptions_def)

theorem options_preflight_witness:
  "requestListener \<lparr>method' = ''OPTIONS'', url = ''/api/records/7'', body = BadJSON\<rparr>
       \<lparr>DATA_FILE = ReadError ''ENOENT'', fault = None, calls = []\<rparr> =
     (\<lparr>status = 204,
       headers =
         [(''Access-Control-Allow-Origin'', ''*''),
          (''Access-Control-Allow-Methods'', ''GET, POST, DELETE, OPTIONS''),
          (''Access-Control-Allow-Headers'', ''Content-Type''),
          (''Content-Length'', ''0'')],
       content = None\<rparr>,
      \<lparr>DATA_FILE = ReadError ''ENOENT'', fault = None, calls = []\<rparr>)"
  using options_preflight
    [of "\<lparr>method' = ''OPTIONS'', url = ''/api/records/7'', body = BadJSON\<rparr>"
        "\<lparr>DATA_FILE = ReadError ''ENOENT'', fault = None, calls = []\<rparr>"]
  by simp

lemma GET_data_found:
  "content (fst (case GET_data st of
       (Inr res, st') \<Rightarrow> (res, st')
     | (Inl error, st') \<Rightarrow> (sendResponse 500 (InternalServerError error), st'))) \<noteq>
   Some (Message ''Not Found'')"
  by (cases "readData st") (auto simp: GET_data_def sendResponse_def split: sum.splits)

lemma POST_columns_found:
  "content (fst (case POST_columns req st of
       (Inr res, st') \<Rightarrow> (res, st')
     | (Inl error, st') \<Rightarrow> (sendResponse 500 (InternalServerError error), st'))) \<noteq>
   Some (Message ''Not Found'')"
  by (auto simp: POST_columns_def sendResponse_def Let_def
      split: sum.splits jsval.splits json.splits prod.splits)

lemma POST_records_found:
  "content (fst (case POST_records req st of
       (Inr res, st') \<Rightarrow> (res, st')
     | (Inl error, st') \<Rightarrow> (sendResponse 500 (InternalServerError error), st'))) \<noteq>
   Some (Message ''Not Found'')"
  by (auto simp: POST_records_def sendResponse_def Let_def split: sum.splits prod.splits)

lemma DELETE_records_found:
  "content (fst (case DELETE_records parts st of
       (Inr res, st') \<Rightarrow> (res, st')
     | (Inl error, st') \<Rightarrow> (sendResponse 500 (InternalServerError error), st'))) \<noteq>
   Some (Message ''Not Found'')"
  by (auto simp: DELETE_records_def sendResponse_def Let_def
      split: sum.splits prod.splits option.splits)

text \<open>
  C3, as the code has it. The fourth route is not \<^verbatim>\<open>DELETE /api/records/{index}\<close> with
  one index segment but every \<^verbatim>\<open>DELETE\<close> whose URL starts with \<^verbatim>\<open>/api/records/\<close>:
  such a request is handled as a deletion whatever follows the index. For a request
  that is not \<^verbatim>\<open>OPTIONS\<close>, the answer carries the body \<^verbatim>\<open>{"message": "Not Found"}\<close>
  exactly when the request passes none of the four tests of the handler
  (\<^verbatim>\<open>GET /api/data\<close>, \<^verbatim>\<open>POST /api/columns\<close>, \<^verbatim>\<open>POST /api/records\<close>, each with the URL
  compared as a whole, and \<^verbatim>\<open>DELETE\<close> with that prefix); the answer is then 404 and
  the store is not touched.
\<close>

theorem unmatched_route:
  assumes "method' req \<noteq> ''OPTIONS''"
  shows "(content (fst (requestListener req st)) = Some (Message ''Not Found'')) =
           (\<not> (method' req = ''GET'' \<and> url req = ''/api/data'') \<and>
            \<not> (method' req = ''POST'' \<and> url req = ''/api/columns'') \<and>
            \<not> (method' req = ''POST'' \<and> url req = ''/api/records'') \<and>
            \<not> (method' req = ''DELETE'' \<and> startsWith (url req) ''/api/records/'')) \<and>
         (\<not> (method' req = ''GET'' \<and> url req = ''/api/data'') \<and>
          \<not> (method' req = ''POST'' \<and> url req = ''/api/columns'') \<and>
          \<not> (method' req = ''POST'' \<and> url req = ''/api/records'') \<and>
          \<not> (method' req = ''DELETE'' \<and> startsWith (url req) ''/api/records/'') \<longrightarrow>
          requestListener req st =
            (\<lparr>status = 404,
              headers =
                [(''Content-Type'', ''application/json''),
                 (''Access-Control-Allow-Origin'', ''*''),
                 (''Access-Control-Allow-Methods'', ''GET, POST, DELETE, OPTIONS''),
                 (''Access-Control-Allow-Headers'', ''Content-Type'')],
              content = Some (Message ''Not Found'')\<rparr>, st))"
proof -
  let ?G = "method' req = ''GET'' \<and> url req = ''/api/data''"
  let ?C = "method' req = ''POST'' \<and> url req = ''/api/columns''"
  let ?R = "method' req = ''POST'' \<and> url req = ''/api/records''"
  let ?D = "method' req = ''DELETE'' \<and> startsWith (url req) ''/api/records/''"
  have none: "\<not> ?G \<and> \<not> ?C \<and> \<not> ?R \<and> \<not> ?D \<Longrightarrow>
      requestListener req st =
        (\<lparr>status = 404,
          headers =
            [(''Content-Type'', ''application/json''),
             (''Access-Control-Allow-Origin'', ''*''),
             (''Access-Control-Allow-Methods'', ''GET, POST, DELETE, OPTIONS''),
             (''Access-Control-Allow-Headers'', ''Content-Type'')],
          content = Some (Message ''Not Found'')\<rparr>, st)"
    using assms by (auto simp: requestListener_def try_block_def sendResponse_def)
  have some: "?G \<or> ?C \<or> ?R \<or> ?D \<Longrightarrow>
      content (fst (requestListener req st)) \<noteq> Some (Message ''Not Found'')"
    using assms GET_data_found [of st] POST_columns_found [of req st]
      POST_records_found [of req st] DELETE_records_found [of "split CHR ''/'' (url req)" st]
    by (auto simp: requestListener_def try_block_def)
  show ?thesis
    using none some by (cases "?G \<or> ?C \<or> ?R \<or> ?D") auto
qed

theorem unmatched_route_witness:
  "requestListener \<lparr>method' = ''DELETE'', url = ''/api/records'', body = NoBody\<rparr>
       \<lparr>DATA_FILE = NotJSON, fault = None, calls = []\<rparr> =
     (\<lparr>status = 404,
       headers =
         [(''Content-Type'', ''application/json''),
          (''Access-Control-Allow-Origin'', ''*''),
          (''Access-Control-Allow-Methods'', ''GET, POST, DELETE, OPTIONS''),
          (''Access-Control-Allow-Headers'', ''Content-Type'')],
       content = Some (Message ''Not Found'')\<rparr>,
      \<lparr>DATA_FILE = NotJSON, fault = None, calls = []\<rparr>) \<and>
   content (fst (requestListener
       \<lparr>method' = ''DELETE'', url = ''/api/records/0/extra'', body = NoBody\<rparr>
       \<lparr>DATA_FILE = Holds \<lparr>columns = [JStr ''a''], records = [[''a'' \<mapsto> JStr ''x'']]\<rparr>,
        fault = None, calls = []\<rparr>)) \<noteq> Some (Message ''Not Found'')"
  using unmatched_route
    [of "\<lparr>method' = ''DELETE'', url = ''/api/records'', body = NoBody\<rparr>"
        "\<lparr>DATA_FILE = NotJSON, fault = None, calls = []\<rparr>"]
    unmatched_route
    [of "\<lparr>method' = ''DELETE'', url = ''/api/records/0/extra'', body = NoBody\<rparr>"
        "\<lparr>DATA_FILE = Holds \<lparr>columns = [JStr ''a''], records = [[''a'' \<mapsto> JStr ''x'']]\<rparr>,
          fault = None, calls = []\<rparr>"]
  by (simp add: startsWith_def)

text \<open>
  The claim fails at \<^verbatim>\<open>DELETE /api/records/0/extra\<close>: the URL is not
  \<^verbatim>\<open>/api/records/\<close> followed by one segment, so the request matches none of the four
  routes as the specification writes them, yet it is not answered 404: record 0 is
  deleted and the answer is 200.
\<close>

theorem unmatched_route_counterexample:
  "\<not> spec_delete_route ''/api/records/0/extra'' \<and>
   status (fst (requestListener
       \<lparr>method' = ''DELETE'', url = ''/api/records/0/extra'', body = NoBody\<rparr>
       \<lparr>DATA_FILE = Holds \<lparr>columns = [JStr ''a''], records = [[''a'' \<mapsto> JStr ''x'']]\<rparr>,
        fault = None, calls = []\<rparr>)) = 200 \<and>
   DATA_FILE (snd (requestListener
       \<lparr>method' = ''DELETE'', url = ''/api/records/0/extra'', body = NoBody\<rparr>
       \<lparr>DATA_FILE = Holds \<lparr>columns = [JStr ''a''], records = [[''a'' \<mapsto> JStr ''x'']]\<rparr>,
        fault = None, calls = []\<rparr>)) =
     Holds \<lparr>columns = [JStr ''a''], records = []\<rparr>"
  by (simp add: eval_defs spec_delete_route_def splice_def)

section \<open>Request bodies\<close>

text \<open>
  C1, as the code has it. A \<^verbatim>\<open>POST /api/records\<close> whose body is not empty and is
  rejected by \<^verbatim>\<open>JSON.parse\<close> makes \<^verbatim>\<open>parseBody\<close> reject with the error
  \<^verbatim>\<open>Invalid JSON in request body\<close>; the \<^verbatim>\<open>catch\<close> of the handler answers 500 with that
  message, not 400. The store is returned as it was: the file is never read or written.
\<close>

theorem malformed_record_body:
  assumes "method' req = ''POST''" and "url req = ''/api/records''" and "body req = BadJSON"
  shows "requestListener req st =
           (\<lparr>status = 500,
             headers =
               [(''Content-Type'', ''application/json''),
                (''Access-Control-Allow-Origin'', ''*''),
                (''Access-Control-Allow-Methods'', ''GET, POST, DELETE, OPTIONS''),
                (''Access-Control-Allow-Headers'', ''Content-Type'')],
             content = Some (InternalServerError (Error ''Invalid JSON in request body''))\<rparr>,
            st)"
  using assms
  by (simp add: requestListener_def try_block_def POST_records_def parseBody_def
      sendResponse_def)

theorem malformed_record_body_witness:
  "requestListener \<lparr>method' = ''POST'', url = ''/api/records'', body = BadJSON\<rparr>
       \<lparr>DATA_FILE = Holds \<lparr>columns = [JStr ''a''], records = []\<rparr>, fault = None,
        calls = []\<rparr> =
     (\<lparr>status = 500,
       headers =
         [(''Content-Type'', ''application/json''),
          (''Access-Control-Allow-Origin'', ''*''),
          (''Access-Control-Allow-Methods'', ''GET, POST, DELETE, OPTIONS''),
          (''Access-Control-Allow-Headers'', ''Content-Type'')],
       content = Some (InternalServerError (Error ''Invalid JSON in request body''))\<rparr>,
      \<lparr>DATA_FILE = Holds \<lparr>columns = [JStr ''a''], records = []\<rparr>, fault = None,
       calls = []\<rparr>)"
  using malformed_record_body
    [of "\<lparr>method' = ''POST'', url = ''/api/records'', body = BadJSON\<rparr>"
        "\<lparr>DATA_FILE = Holds \<lparr>columns = [JStr ''a''], records = []\<rparr>, fault = None,
          calls = []\<rparr>"]
  by simp

text \<open>
  The claim's status 400 fails at this request: the response to a rejected body on an
  otherwise healthy store is 500.
\<close>

theorem malformed_record_body_counterexample:
  "status (fst (requestListener
       \<lparr>method' = ''POST'', url = ''/api/records'', body = BadJSON\<rparr>
       \<lparr>DATA_FILE = Holds \<lparr>columns = [JStr ''a''], records = []\<rparr>, fault = None,
        calls = []\<rparr>)) = 500 \<and>
   status (fst (requestListener
       \<lparr>method' = ''POST'', url = ''/api/records'', body = BadJSON\<rparr>
       \<lparr>DATA_FILE = Holds \<lparr>columns = [JStr ''a''], records = []\<rparr>, fault = None,
        calls = []\<rparr>)) \<noteq> 400"
  by (simp add: requestListener_def try_block_def POST_records_def parseBody_def
      sendResponse_def)

section \<open>Loading the data file\<close>

text \<open>
  C9. When \<^verbatim>\<open>readData\<close> finds no file (\<^verbatim>\<open>ENOENT\<close>) it writes the document
  \<^verbatim>\<open>{columns: [], records: []}\<close> and only then returns it: if the write succeeds, the
  file holds exactly that document and it is the value returned; if the write fails,
  nothing is returned and the error of the write is passed on to the caller. Every
  other failure is passed on as the error it is, with nothing written: a read error
  with another code, and a file whose text \<^verbatim>\<open>JSON.parse\<close> rejects. In no case does
  \<^verbatim>\<open>readData\<close> return a document that the file does not hold.
\<close>

theorem load_rule:
  "(DATA_FILE st = ReadError ''ENOENT'' \<longrightarrow>
      calls (snd (readData st)) = calls st @ [ReadFile, WriteFile] \<and>
      (case fault st of
         None \<Rightarrow>
           fst (readData st) = Inr \<lparr>columns = [], records = []\<rparr> \<and>
           DATA_FILE (snd (readData st)) = Holds \<lparr>columns = [], records = []\<rparr>
       | Some (Refused code) \<Rightarrow>
           fst (readData st) = Inl (SystemError code) \<and>
           DATA_FILE (snd (readData st)) = DATA_FILE st
       | Some (Torn code) \<Rightarrow>
           fst (readData st) = Inl (SystemError code) \<and>
           DATA_FILE (snd (readData st)) = NotJSON)) \<and>
   (\<forall>code. DATA_FILE st = ReadError code \<and> code \<noteq> ''ENOENT'' \<longrightarrow>
      fst (readData st) = Inl (SystemError code) \<and>
      DATA_FILE (snd (readData st)) = DATA_FILE st \<and>
      calls (snd (readData st)) = calls st @ [ReadFile]) \<and>
   (DATA_FILE st = NotJSON \<longrightarrow>
      fst (readData st) = Inl SyntaxError \<and>
      DATA_FILE (snd (readData st)) = DATA_FILE st \<and>
      calls (snd (readData st)) = calls st @ [ReadFile]) \<and>
   (\<forall>d. fst (readData st) = Inr d \<longrightarrow>
      DATA_FILE (snd (readData st)) = Holds (JSON_stringify d))"
  by (cases "DATA_FILE st")
     (auto simp: readData_def writeFile_def Let_def split: option.splits write_fault.splits)

theorem load_rule_witness:
  "readData \<lparr>DATA_FILE = ReadError ''ENOENT'', fault = None, calls = []\<rparr> =
     (Inr \<lparr>columns = [], records = []\<rparr>,
      \<lparr>DATA_FILE = Holds \<lparr>columns = [], records = []\<rparr>, fault = None,
       calls = [ReadFile, WriteFile]\<rparr>) \<and>
   readData \<lparr>DATA_FILE = ReadError ''ENOENT'', fault = Some (Refused ''EACCES''), calls = []\<rparr> =
     (Inl (SystemError ''EACCES''),
      \<lparr>DATA_FILE = ReadError ''ENOENT'', fault = Some (Refused ''EACCES''),
       calls = [ReadFile, WriteFile]\<rparr>) \<and>
   readData \<lparr>DATA_FILE = ReadError ''EACCES'', fault = None, calls = []\<rparr> =
     (Inl (SystemError ''EACCES''),
      \<lparr>DATA_FILE = ReadError ''EACCES'', fault = None, calls = [ReadFile]\<rparr>) \<and>
   readData \<lparr>DATA_FILE = NotJSON, fault = None, calls = []\<rparr> =
     (Inl SyntaxError, \<lparr>DATA_FILE = NotJSON, fault = None, calls = [ReadFile]\<rparr>)"
  using load_rule [of "\<lparr>DATA_FILE = ReadError ''ENOENT'', fault = None, calls = []\<rparr>"]
    load_rule
      [of "\<lparr>DATA_FILE = ReadError ''ENOENT'', fault = Some (Refused ''EACCES''), calls = []\<rparr>"]
    load_rule [of "\<lparr>DATA_FILE = ReadError ''EACCES'', fault = None, calls = []\<rparr>"]
    load_rule [of "\<lparr>DATA_FILE = NotJSON, fault = None, calls = []\<rparr>"]
  by (simp add: readData_def writeFile_def)

section \<open>Deleting a record\<close>

lemma stringify_splice:
  "JSON_stringify ((JSON_parse d)\<lparr>records := splice i (records (JSON_parse d))\<rparr>) =
     d\<lparr>records := splice i (records d)\<rparr>"
  by (simp add: JSON_stringify_def JSON_parse_def splice_def take_map drop_map)

lemma DELETE_records_Holds:
  assumes "DATA_FILE st = Holds d" and "fault st = None"
  shows "DELETE_records parts st =
     (case parseInt (indexStr parts) of
        None \<Rightarrow> (Inr (sendResponse 404 (Message ''Invalid or out of bounds record index.'')),
                 st\<lparr>calls := calls st @ [ReadFile]\<rparr>)
      | Some i \<Rightarrow>
          if i < 0 \<or> int (length (records d)) \<le> i then
            (Inr (sendResponse 404 (Message ''Invalid or out of bounds record index.'')),
             st\<lparr>calls := calls st @ [ReadFile]\<rparr>)
          else
            (Inr (sendResponse 200
                    (Whole ((JSON_parse d)\<lparr>records := splice (nat i) (records (JSON_parse d))\<rparr>))),
             st\<lparr>calls := calls st @ [ReadFile, WriteFile],
                DATA_FILE := Holds (d\<lparr>records := splice (nat i) (records d)\<rparr>)\<rparr>))"
  using assms
  by (simp add: DELETE_records_def readData_Holds writeData_ok stringify_splice Let_def
      split: option.splits) (simp add: JSON_parse_def)

text \<open>
  The part of the URL that is read as the index is what stands between
  \<^verbatim>\<open>/api/records/\<close> and the next slash, or the end.
\<close>

lemma split_nonempty: "split sep s \<noteq> []"
  by (induction s) (auto split: list.splits)

lemma split_hd: "hd (split sep s) = takeWhile (\<lambda>c. c \<noteq> sep) s"
  by (induction s) (auto split: list.splits simp: split_nonempty)

lemma indexStr_segment:
  "indexStr (split CHR ''/'' (''/api/records/'' @ rest)) = takeWhile (\<lambda>c. c \<noteq> CHR ''/'') rest"
proof -
  obtain p ps where ps: "split CHR ''/'' rest = p # ps"
    using split_nonempty [of "CHR ''/''" rest] by (cases "split CHR ''/'' rest") auto
  have "p = takeWhile (\<lambda>c. c \<noteq> CHR ''/'') rest"
    using split_hd [of "CHR ''/''" rest] ps by simp
  then show ?thesis using ps by (simp add: indexStr_def)
qed

lemma requestListener_DELETE:
  assumes "method' req = ''DELETE''" and "url req = ''/api/records/'' @ rest"
    and "DATA_FILE st = Holds d" and "fault st = None"
  shows "requestListener req st =
     (case parseInt (takeWhile (\<lambda>c. c \<noteq> CHR ''/'') rest) of
        None \<Rightarrow> (sendResponse 404 (Message ''Invalid or out of bounds record index.''),
                 st\<lparr>calls := calls st @ [ReadFile]\<rparr>)
      | Some i \<Rightarrow>
          if i < 0 \<or> int (length (records d)) \<le> i then
            (sendResponse 404 (Message ''Invalid or out of bounds record index.''),
             st\<lparr>calls := calls st @ [ReadFile]\<rparr>)
          else
            (sendResponse 200
               (Whole ((JSON_parse d)\<lparr>records := splice (nat i) (records (JSON_parse d))\<rparr>)),
             st\<lparr>calls := calls st @ [ReadFile, WriteFile],
                DATA_FILE := Holds (d\<lparr>records := splice (nat i) (records d)\<rparr>)\<rparr>))"
proof -
  have parts: "indexStr (split CHR ''/'' (url req)) = takeWhile (\<lambda>c. c \<noteq> CHR ''/'') rest"
    unfolding assms(2) by (rule indexStr_segment)
  have route: "try_block req (split CHR ''/'' (url req)) st =
                 DELETE_records (split CHR ''/'' (url req)) st"
    using assms(1,2) by (simp add: try_block_def startsWith_def)
  have "requestListener req st =
          (case DELETE_records (split CHR ''/'' (url req)) st of
             (Inr res, st') \<Rightarrow> (res, st')
           | (Inl error, st') \<Rightarrow> (sendResponse 500 (InternalServerError error), st'))"
    using assms(1) by (simp add: requestListener_def route)
  then show ?thesis
    by (simp add: DELETE_records_Holds [OF assms(3,4)] parts split: option.splits)
qed

lemma DELETE_status_200_fault:
  assumes "method' req = ''DELETE''" and "url req = ''/api/records/'' @ rest"
    and "status (fst (requestListener req st)) = 200"
  shows "fault st = None"
proof (rule ccontr)
  assume f: "fault st \<noteq> None"
  have route: "try_block req (split CHR ''/'' (url req)) st =
                 DELETE_records (split CHR ''/'' (url req)) st"
    using assms(1,2) by (simp add: try_block_def startsWith_def)
  have "status (fst (requestListener req st)) \<noteq> 200"
    using assms(1) f
    by (auto simp: requestListener_def route DELETE_records_def readData_def writeData_def
        writeFile_def sendResponse_def Let_def
        split: option.splits file_state.splits write_fault.splits)
  with assms(3) show False by simp
qed

text \<open>
  C4, as the code has it. For a \<^verbatim>\<open>DELETE\<close> whose URL starts with \<^verbatim>\<open>/api/records/\<close>,
  on a file that holds a document with \<open>n\<close> records and can be written, the answer
  is 200 exactly when \<^verbatim>\<open>parseInt\<close> reads from the index segment an integer \<open>i\<close>
  with \<open>0 \<le> i < n\<close>. \<^verbatim>\<open>parseInt\<close> is not a base-10 reading of the whole segment:
  it skips white space and a sign, reads hexadecimal after \<^verbatim>\<open>0x\<close>, and ignores what
  follows the digits. In every other case (nothing to read, a negative number, or
  \<open>i \<ge> n\<close>) the answer is 404 with the message
  \<^verbatim>\<open>Invalid or out of bounds record index.\<close> and the file holds the same document.
\<close>

theorem delete_index_rule:
  assumes "method' req = ''DELETE''" and "url req = ''/api/records/'' @ rest"
    and "DATA_FILE st = Holds d" and "fault st = None"
  shows "(status (fst (requestListener req st)) = 200) =
           (\<exists>i. parseInt (takeWhile (\<lambda>c. c \<noteq> CHR ''/'') rest) = Some i \<and>
                0 \<le> i \<and> i < int (length (records d))) \<and>
         ((\<nexists>i. parseInt (takeWhile (\<lambda>c. c \<noteq> CHR ''/'') rest) = Some i \<and>
                0 \<le> i \<and> i < int (length (records d))) \<longrightarrow>
          status (fst (requestListener req st)) = 404 \<and>
          content (fst (requestListener req st)) =
            Some (Message ''Invalid or out of bounds record index.'') \<and>
          DATA_FILE (snd (requestListener req st)) = Holds d)"
  unfolding requestListener_DELETE [OF assms]
  using assms(3)
  by (cases "parseInt (takeWhile (\<lambda>c. c \<noteq> CHR ''/'') rest)")
     (auto simp: sendResponse_def)

theorem delete_index_rule_witness:
  "status (fst (requestListener
       \<lparr>method' = ''DELETE'', url = ''/api/records/1'', body = NoBody\<rparr>
       \<lparr>DATA_FILE = Holds \<lparr>columns = [JStr ''a''],
                             records = [[''a'' \<mapsto> JStr ''x''], [''a'' \<mapsto> JStr ''y'']]\<rparr>,
        fault = None, calls = []\<rparr>)) = 200 \<and>
   parseInt ''1'' = Some 1 \<and>
   status (fst (requestListener
       \<lparr>method' = ''DELETE'', url = ''/api/records/2'', body = NoBody\<rparr>
       \<lparr>DATA_FILE = Holds \<lparr>columns = [JStr ''a''],
                             records = [[''a'' \<mapsto> JStr ''x''], [''a'' \<mapsto> JStr ''y'']]\<rparr>,
        fault = None, calls = []\<rparr>)) = 404 \<and>
   parseInt ''2'' = Some 2 \<and>
   DATA_FILE (snd (requestListener
       \<lparr>method' = ''DELETE'', url = ''/api/records/2'', body = NoBody\<rparr>
       \<lparr>DATA_FILE = Holds \<lparr>columns = [JStr ''a''],
                             records = [[''a'' \<mapsto> JStr ''x''], [''a'' \<mapsto> JStr ''y'']]\<rparr>,
        fault = None, calls = []\<rparr>)) =
     Holds \<lparr>columns = [JStr ''a''],
            records = [[''a'' \<mapsto> JStr ''x''], [''a'' \<mapsto> JStr ''y'']]\<rparr>"
  using delete_index_rule
    [of "\<lparr>method' = ''DELETE'', url = ''/api/records/1'', body = NoBody\<rparr>" "''1''"
        "\<lparr>DATA_FILE = Holds \<lparr>columns = [JStr ''a''],
                             records = [[''a'' \<mapsto> JStr ''x''], [''a'' \<mapsto> JStr ''y'']]\<rparr>,
          fault = None, calls = []\<rparr>"
        "\<lparr>columns = [JStr ''a''], records = [[''a'' \<mapsto> JStr ''x''], [''a'' \<mapsto> JStr ''y'']]\<rparr>"]
    delete_index_rule
    [of "\<lparr>method' = ''DELETE'', url = ''/api/records/2'', body = NoBody\<rparr>" "''2''"
        "\<lparr>DATA_FILE = Holds \<lparr>columns = [JStr ''a''],
                             records = [[''a'' \<mapsto> JStr ''x''], [''a'' \<mapsto> JStr ''y'']]\<rparr>,
          fault = None, calls = []\<rparr>"
        "\<lparr>columns = [JStr ''a''], records = [[''a'' \<mapsto> JStr ''x''], [''a'' \<mapsto> JStr ''y'']]\<rparr>"]
  by (simp add: parseInt_def StrWhiteSpaceChar_def digit_value_def digits_value_def)

text \<open>
  The claim fails on a file with two records. \<^verbatim>\<open>1abc\<close> and \<^verbatim>\<open>0x1\<close> are not base-10
  integers, yet both requests delete a record and are answered 200. Read in base 10 up
  to the first character that is not a digit, \<^verbatim>\<open>0x5\<close> would be 0, a valid position,
  yet the request is answered 404: the server reads it as the hexadecimal 5.
\<close>

theorem delete_index_rule_counterexample:
  "spec_base10_integer ''1abc'' = None \<and>
   status (fst (requestListener
       \<lparr>method' = ''DELETE'', url = ''/api/records/1abc'', body = NoBody\<rparr>
       \<lparr>DATA_FILE = Holds \<lparr>columns = [JStr ''a''],
                             records = [[''a'' \<mapsto> JStr ''x''], [''a'' \<mapsto> JStr ''y'']]\<rparr>,
        fault = None, calls = []\<rparr>)) = 200 \<and>
   spec_base10_integer ''0x1'' = None \<and>
   status (fst (requestListener
       \<lparr>method' = ''DELETE'', url = ''/api/records/0x1'', body = NoBody\<rparr>
       \<lparr>DATA_FILE = Holds \<lparr>columns = [JStr ''a''],
                             records = [[''a'' \<mapsto> JStr ''x''], [''a'' \<mapsto> JStr ''y'']]\<rparr>,
        fault = None, calls = []\<rparr>)) = 200 \<and>
   status (fst (requestListener
       \<lparr>method' = ''DELETE'', url = ''/api/records/0x5'', body = NoBody\<rparr>
       \<lparr>DATA_FILE = Holds \<lparr>columns = [JStr ''a''],
                             records = [[''a'' \<mapsto> JStr ''x''], [''a'' \<mapsto> JStr ''y'']]\<rparr>,
        fault = None, calls = []\<rparr>)) = 404"
  by (simp add: eval_defs spec_base10_integer_def)

text \<open>
  C8. When a \<^verbatim>\<open>DELETE\<close> on a file that holds a document is answered 200, the index
  read from the URL is a position \<open>i\<close> of the record list, and the document written
  and returned is the old one without the record at \<open>i\<close>: the list is one shorter,
  the records before \<open>i\<close> keep their positions, and every later record moves down by
  one.
\<close>

theorem delete_shifts:
  assumes "method' req = ''DELETE''" and "url req = ''/api/records/'' @ rest"
    and "DATA_FILE st = Holds d"
    and "status (fst (requestListener req st)) = 200"
  shows "\<exists>i rs'. parseInt (takeWhile (\<lambda>c. c \<noteq> CHR ''/'') rest) = Some (int i) \<and>
           i < length (records d) \<and>
           rs' = take i (records d) @ drop (Suc i) (records d) \<and>
           DATA_FILE (snd (requestListener req st)) = Holds (d\<lparr>records := rs'\<rparr>) \<and>
           content (fst (requestListener req st)) = Some (Whole (d\<lparr>records := rs'\<rparr>)) \<and>
           length rs' = length (records d) - 1 \<and>
           (\<forall>j. j < i \<longrightarrow> rs' ! j = records d ! j) \<and>
           (\<forall>j. i \<le> j \<and> j < length (records d) - 1 \<longrightarrow> rs' ! j = records d ! Suc j)"
proof -
  have f: "fault st = None"
    using DELETE_status_200_fault [OF assms(1,2,4)] .
  note R = requestListener_DELETE [OF assms(1,2,3) f]
  from assms(4) obtain k where k: "parseInt (takeWhile (\<lambda>c. c \<noteq> CHR ''/'') rest) = Some k"
    and bounds: "0 \<le> k" "k < int (length (records d))"
    unfolding R
    by (cases "parseInt (takeWhile (\<lambda>c. c \<noteq> CHR ''/'') rest)")
       (auto simp: sendResponse_def split: if_splits)
  define i where "i = nat k"
  have ki: "k = int i" and il: "i < length (records d)"
    using bounds by (simp_all add: i_def)
  define rs' where "rs' = take i (records d) @ drop (Suc i) (records d)"
  have st': "DATA_FILE (snd (requestListener req st)) = Holds (d\<lparr>records := rs'\<rparr>)"
    unfolding R using k bounds by (simp add: ki rs'_def splice_def)
  have body: "content (fst (requestListener req st)) = Some (Whole (d\<lparr>records := rs'\<rparr>))"
    unfolding R using k bounds
    by (simp add: ki rs'_def sendResponse_def stringify_splice splice_def [symmetric])
  have len: "length rs' = length (records d) - 1"
    using il by (simp add: rs'_def)
  have before: "\<forall>j. j < i \<longrightarrow> rs' ! j = records d ! j"
    using il by (simp add: rs'_def nth_append)
  have after: "\<forall>j. i \<le> j \<and> j < length (records d) - 1 \<longrightarrow> rs' ! j = records d ! Suc j"
    using il by (auto simp: rs'_def nth_append min_def)
  show ?thesis
    using k ki il st' body len before after rs'_def by blast
qed

text \<open>
  Deleting index 0 from \<open>[r0, r1, r2]\<close> leaves \<open>[r1, r2]\<close>, and deleting index 0
  again removes the original \<open>r1\<close>.
\<close>

theorem delete_shifts_witness:
  "DATA_FILE (snd (requestListener
       \<lparr>method' = ''DELETE'', url = ''/api/records/0'', body = NoBody\<rparr>
       \<lparr>DATA_FILE = Holds \<lparr>columns = [JStr ''a''],
                             records = [[''a'' \<mapsto> JStr ''r0''], [''a'' \<mapsto> JStr ''r1''],
                                        [''a'' \<mapsto> JStr ''r2'']]\<rparr>,
        fault = None, calls = []\<rparr>)) =
     Holds \<lparr>columns = [JStr ''a''],
            records = [[''a'' \<mapsto> JStr ''r1''], [''a'' \<mapsto> JStr ''r2'']]\<rparr> \<and>
   DATA_FILE (snd (requestListener
       \<lparr>method' = ''DELETE'', url = ''/api/records/0'', body = NoBody\<rparr>
       (snd (requestListener
          \<lparr>method' = ''DELETE'', url = ''/api/records/0'', body = NoBody\<rparr>
          \<lparr>DATA_FILE = Holds \<lparr>columns = [JStr ''a''],
                                records = [[''a'' \<mapsto> JStr ''r0''], [''a'' \<mapsto> JStr ''r1''],
                                           [''a'' \<mapsto> JStr ''r2'']]\<rparr>,
           fault = None, calls = []\<rparr>)))) =
     Holds \<lparr>columns = [JStr ''a''], records = [[''a'' \<mapsto> JStr ''r2'']]\<rparr>"
  using delete_shifts
    [of "\<lparr>method' = ''DELETE'', url = ''/api/records/0'', body = NoBody\<rparr>" "''0''"
        "\<lparr>DATA_FILE = Holds \<lparr>columns = [JStr ''a''],
                                records = [[''a'' \<mapsto> JStr ''r0''], [''a'' \<mapsto> JStr ''r1''],
                                           [''a'' \<mapsto> JStr ''r2'']]\<rparr>,
           fault = None, calls = []\<rparr>"
        "\<lparr>columns = [JStr ''a''],
          records = [[''a'' \<mapsto> JStr ''r0''], [''a'' \<mapsto> JStr ''r1''], [''a'' \<mapsto> JStr ''r2'']]\<rparr>"]
  by (simp add: eval_defs splice_def)

section \<open>Appending a record\<close>

lemma ordinary_not_proto: "s \<notin> set Object_prototype \<Longrightarrow> s \<noteq> ''__proto__''"
  by (auto simp: Object_prototype_def)

lemma forEach_col_ordinary:
  assumes "ordinary_columns cols"
  shows "forEach_col (JObj kvs) cols (props, None) =
           Inr (\<lambda>k. if JStr k \<in> set cols then Some (or_empty (object_get kvs k)) else props k,
                None)"
  using assms
proof (induction cols arbitrary: props)
  case Nil
  then show ?case by simp
next
  case (Cons col cols)
  then obtain s where s: "col = JStr s" "s \<noteq> ''__proto__''"
    by (auto simp: ordinary_columns_def dest: ordinary_not_proto)
  have rest: "ordinary_columns cols"
    using Cons.prems by (simp add: ordinary_columns_def)
  show ?case
    using s by (simp add: set_property_def Cons.IH [OF rest] fun_eq_iff)
qed

lemma stringify_ordinary:
  assumes "ordinary_columns cols"
  shows "stringify_object
           (\<lambda>k. if JStr k \<in> set cols then Some (or_empty (object_get kvs k)) else None) =
         ordinary_record cols kvs"
proof
  fix k
  show "stringify_object
          (\<lambda>k. if JStr k \<in> set cols then Some (or_empty (object_get kvs k)) else None) k =
        ordinary_record cols kvs k"
  proof (cases "JStr k \<in> set cols")
    case True
    then have "k \<notin> set Object_prototype"
      using assms by (auto simp: ordinary_columns_def)
    then show ?thesis
      using True
      by (simp add: stringify_object_def ordinary_record_def or_empty_def object_get_def
          split: option.splits)
  next
    case False
    then show ?thesis by (simp add: stringify_object_def ordinary_record_def)
  qed
qed

lemma stringify_append:
  "JSON_stringify ((JSON_parse d)\<lparr>records := records (JSON_parse d) @ [r]\<rparr>) =
     d\<lparr>records := records d @ [stringify_object r]\<rparr>"
  by (simp add: JSON_stringify_def JSON_parse_def)

lemma POST_records_object:
  assumes "parseBody req = Inr (JObj kvs)" and "DATA_FILE st = Holds d" and "fault st = None"
    and "ordinary_columns (columns d)"
  shows "POST_records req st =
           (Inr \<lparr>status = 201,
                 headers =
                   [(''Content-Type'', ''application/json''),
                    (''Access-Control-Allow-Origin'', ''*''),
                    (''Access-Control-Allow-Methods'', ''GET, POST, DELETE, OPTIONS''),
                    (''Access-Control-Allow-Headers'', ''Content-Type'')],
                 content =
                   Some (Whole (d\<lparr>records := records d @ [ordinary_record (columns d) kvs]\<rparr>))\<rparr>,
            st\<lparr>calls := calls st @ [ReadFile, WriteFile],
               DATA_FILE :=
                 Holds (d\<lparr>records := records d @ [ordinary_record (columns d) kvs]\<rparr>)\<rparr>)"
proof -
  have cols: "columns (JSON_parse d) = columns d"
    by (simp add: JSON_parse_def)
  show ?thesis
    using assms(1,2,3)
    by (simp add: POST_records_def readData_Holds writeData_ok cols
        forEach_col_ordinary [OF assms(4)] stringify_append stringify_ordinary [OF assms(4)]
        sendResponse_def Let_def)
qed

text \<open>
  What \<^verbatim>\<open>POST /api/records\<close> does with a body that is an object (an empty body counts
  as \<^verbatim>\<open>{}\<close>), on a file that can be written and holds a document with ordinary
  columns: one record is appended, with exactly the columns as keys, each holding the
  body's field of that name when present and truthy and the empty string otherwise;
  the fields of the body that no column names are ignored; the answer is 201 with the
  whole new document.
\<close>

lemma post_records_appends:
  assumes "method' req = ''POST''" and "url req = ''/api/records''"
    and "body req = JSONText (JObj kvs) \<or> (body req = NoBody \<and> kvs = [])"
    and "DATA_FILE st = Holds d" and "fault st = None"
    and "ordinary_columns (columns d)"
  shows "requestListener req st =
           (\<lparr>status = 201,
             headers =
               [(''Content-Type'', ''application/json''),
                (''Access-Control-Allow-Origin'', ''*''),
                (''Access-Control-Allow-Methods'', ''GET, POST, DELETE, OPTIONS''),
                (''Access-Control-Allow-Headers'', ''Content-Type'')],
             content =
               Some (Whole (d\<lparr>records := records d @ [ordinary_record (columns d) kvs]\<rparr>))\<rparr>,
            st\<lparr>calls := calls st @ [ReadFile, WriteFile],
               DATA_FILE :=
                 Holds (d\<lparr>records := records d @ [ordinary_record (columns d) kvs]\<rparr>)\<rparr>)"
proof -
  have "parseBody req = Inr (JObj kvs)"
    using assms(3) by (auto simp: parseBody_def)
  then show ?thesis
    using assms(1,2) POST_records_object [OF _ assms(4,5,6), of req kvs]
    by (simp add: requestListener_def try_block_def)
qed

lemma ordinary_record_dom: "dom (ordinary_record cols kvs) = {k. JStr k \<in> set cols}"
  by (auto simp: ordinary_record_def dom_def)

text \<open>
  C6 at a column named \<^verbatim>\<open>constructor\<close>. Posting the columns
  \<^verbatim>\<open>["name", "constructor"]\<close> to an empty document stores them. Posting the record
  \<^verbatim>\<open>{"name": "x"}\<close> then reads \<^verbatim>\<open>newRecord["constructor"]\<close>, which finds the
  function inherited from \<^verbatim>\<open>Object.prototype\<close>; it is truthy, so the empty string is
  not substituted, and \<^verbatim>\<open>JSON.stringify\<close> leaves the property out. The record written
  and returned is \<^verbatim>\<open>{"name": "x"}\<close>: its keys are not the columns, and the column that
  the body lacks does not hold the empty string.
\<close>

theorem inherited_column_name:
  "DATA_FILE (snd (requestListener
       \<lparr>method' = ''POST'', url = ''/api/columns'',
        body = JSONText (JObj [(''columns'', JArr [JStr ''name'', JStr ''constructor''])])\<rparr>
       \<lparr>DATA_FILE = Holds \<lparr>columns = [], records = []\<rparr>, fault = None, calls = []\<rparr>)) =
     Holds \<lparr>columns = [JStr ''name'', JStr ''constructor''], records = []\<rparr> \<and>
   requestListener
       \<lparr>method' = ''POST'', url = ''/api/records'',
        body = JSONText (JObj [(''name'', JStr ''x'')])\<rparr>
       \<lparr>DATA_FILE = Holds \<lparr>columns = [JStr ''name'', JStr ''constructor''], records = []\<rparr>,
        fault = None, calls = []\<rparr> =
     (\<lparr>status = 201,
       headers =
         [(''Content-Type'', ''application/json''),
          (''Access-Control-Allow-Origin'', ''*''),
          (''Access-Control-Allow-Methods'', ''GET, POST, DELETE, OPTIONS''),
          (''Access-Control-Allow-Headers'', ''Content-Type'')],
       content =
         Some (Whole \<lparr>columns = [JStr ''name'', JStr ''constructor''],
                      records = [[''name'' \<mapsto> JStr ''x'']]\<rparr>)\<rparr>,
      \<lparr>DATA_FILE = Holds \<lparr>columns = [JStr ''name'', JStr ''constructor''],
                           records = [[''name'' \<mapsto> JStr ''x'']]\<rparr>,
       fault = None, calls = [ReadFile, WriteFile]\<rparr>)"
  by (simp add: eval_defs stringify_object_def fun_eq_iff)

text \<open>
  A body that is an array or a primitive is answered 400, and the store is not touched.
\<close>

lemma post_records_rejects:
  assumes "method' req = ''POST''" and "url req = ''/api/records''"
    and "body req = JSONText v" and "typeof v \<noteq> ''object'' \<or> (\<exists>xs. v = JArr xs)"
  shows "requestListener req st =
           (\<lparr>status = 400,
             headers =
               [(''Content-Type'', ''application/json''),
                (''Access-Control-Allow-Origin'', ''*''),
                (''Access-Control-Allow-Methods'', ''GET, POST, DELETE, OPTIONS''),
                (''Access-Control-Allow-Headers'', ''Content-Type'')],
             content =
               Some (Message ''Invalid format: Request body must be a single record object.'')\<rparr>,
            st)"
  using assms
  by (auto simp: requestListener_def try_block_def POST_records_def parseBody_def
      sendResponse_def)

text \<open>
  C2 at the body \<^verbatim>\<open>null\<close>. \<^verbatim>\<open>typeof null\<close> is \<^verbatim>\<open>'object'\<close> and \<^verbatim>\<open>null\<close> is no
  array, so the test for a record object lets it pass. With no columns the loop reads
  nothing from it: the empty record is appended and saved and the answer is 201. With a
  column the first read from \<^verbatim>\<open>null\<close> throws a TypeError and the answer is 500. In
  neither case is it 400.
\<close>

theorem null_record_body:
  "requestListener
       \<lparr>method' = ''POST'', url = ''/api/records'', body = JSONText JNull\<rparr>
       \<lparr>DATA_FILE = Holds \<lparr>columns = [], records = []\<rparr>, fault = None, calls = []\<rparr> =
     (\<lparr>status = 201,
       headers =
         [(''Content-Type'', ''application/json''),
          (''Access-Control-Allow-Origin'', ''*''),
          (''Access-Control-Allow-Methods'', ''GET, POST, DELETE, OPTIONS''),
          (''Access-Control-Allow-Headers'', ''Content-Type'')],
       content = Some (Whole \<lparr>columns = [], records = [Map.empty]\<rparr>)\<rparr>,
      \<lparr>DATA_FILE = Holds \<lparr>columns = [], records = [Map.empty]\<rparr>, fault = None,
       calls = [ReadFile, WriteFile]\<rparr>) \<and>
   fst (requestListener
       \<lparr>method' = ''POST'', url = ''/api/records'', body = JSONText JNull\<rparr>
       \<lparr>DATA_FILE = Holds \<lparr>columns = [JStr ''a''], records = []\<rparr>, fault = None,
        calls = []\<rparr>) =
     \<lparr>status = 500,
      headers =
        [(''Content-Type'', ''application/json''),
         (''Access-Control-Allow-Origin'', ''*''),
         (''Access-Control-Allow-Methods'', ''GET, POST, DELETE, OPTIONS''),
         (''Access-Control-Allow-Headers'', ''Content-Type'')],
      content = Some (InternalServerError TypeError)\<rparr>"
  by (simp add: eval_defs stringify_object_def)

section \<open>Replacing the columns\<close>

lemma is_string_JStr: "is_string c = (\<exists>s. c = JStr s)"
  by (cases c) (simp_all add: is_string_def)

lemma forEach_delete_strings:
  assumes "\<forall>c \<in> set cs. is_string c"
  shows "forEach_delete cs r = Inr (\<lambda>k. if JStr k \<in> set cs then None else r k)"
  using assms
proof (induction cs arbitrary: r)
  case Nil
  then show ?case by simp
next
  case (Cons c cs)
  then obtain s where s: "c = JStr s" by (auto simp: is_string_JStr)
  have "forEach_delete cs (r(s := None)) =
          Inr (\<lambda>k. if JStr k \<in> set cs then None else (r(s := None)) k)"
    using Cons.prems by (intro Cons.IH) simp
  then show ?case using s by (simp add: fun_eq_iff)
qed

lemma map_records_strings:
  assumes "\<forall>c \<in> set cs. is_string c"
  shows "map_records cs rs = Inr (map (\<lambda>r k. if JStr k \<in> set cs then None else r k) rs)"
  by (induction rs) (simp_all add: forEach_delete_strings [OF assms])

lemma stringify_pruned:
  "stringify_object (\<lambda>k. if JStr k \<in> set cs then None else map_option Value (r k)) =
     r |` {k. JStr k \<notin> set cs}"
  by (rule ext) (simp add: stringify_object_def restrict_map_def split: option.splits)

text \<open>
  For a column that is a string, or any other primitive, \<^verbatim>\<open>newColumns.includes(col)\<close>
  is membership.
\<close>

lemma includes_elem_primitive:
  "includes_elem cols c = (c \<in> set cols \<and> (\<forall>xs. c \<noteq> JArr xs) \<and> (\<forall>kvs. c \<noteq> JObj kvs))"
proof -
  have "\<And>y. SameValueZero y c = (y = c \<and> (\<forall>xs. c \<noteq> JArr xs) \<and> (\<forall>kvs. c \<noteq> JObj kvs))"
    by (case_tac y) auto
  then show ?thesis
    by (auto simp: includes_elem_def list_ex_iff)
qed

lemma removed_strings:
  assumes "\<forall>c \<in> set old. is_string c"
  shows "filter (\<lambda>col. \<not> includes_elem cols col) old = filter (\<lambda>col. col \<notin> set cols) old"
  using assms by (intro filter_cong) (auto simp: includes_elem_primitive is_string_JStr)

lemma POST_columns_array:
  assumes "parseBody req = Inr (JObj kvs)" and "map_of kvs ''columns'' = Some (JArr cols)"
    and "DATA_FILE st = Holds d" and "fault st = None"
    and "\<forall>c \<in> set (columns d). is_string c"
  shows "POST_columns req st =
           (Inr \<lparr>status = 200,
                 headers =
                   [(''Content-Type'', ''application/json''),
                    (''Access-Control-Allow-Origin'', ''*''),
                    (''Access-Control-Allow-Methods'', ''GET, POST, DELETE, OPTIONS''),
                    (''Access-Control-Allow-Headers'', ''Content-Type'')],
                 content =
                   Some (Whole \<lparr>columns = cols,
                          records =
                            map (\<lambda>r. r |` {k. JStr k \<notin>
                                   set (filter (\<lambda>col. col \<notin> set cols) (columns d))})
                              (records d)\<rparr>)\<rparr>,
            st\<lparr>calls := calls st @ [ReadFile, WriteFile],
               DATA_FILE :=
                 Holds \<lparr>columns = cols,
                        records =
                          map (\<lambda>r. r |` {k. JStr k \<notin>
                                 set (filter (\<lambda>col. col \<notin> set cols) (columns d))})
                            (records d)\<rparr>\<rparr>)"
proof -
  let ?removed = "filter (\<lambda>col. col \<notin> set cols) (columns d)"
  have rem: "filter (\<lambda>col. \<not> includes_elem cols col) (columns (JSON_parse d)) = ?removed"
    using removed_strings [OF assms(5)] by (simp add: JSON_parse_def)
  have strs: "\<forall>c \<in> set ?removed. is_string c"
    using assms(5) by simp
  have pruned: "map_records ?removed (records (JSON_parse d)) =
      Inr (map (\<lambda>r k. if JStr k \<in> set ?removed then None else r k) (records (JSON_parse d)))"
    by (rule map_records_strings [OF strs])
  show ?thesis
    using assms(1,2,3,4)
    by (simp add: POST_columns_def object_get_def readData_Holds writeData_ok rem pruned
        sendResponse_def Let_def del: set_filter)
       (simp add: JSON_stringify_def JSON_parse_def comp_def stringify_pruned del: set_filter)
qed

text \<open>
  What \<^verbatim>\<open>POST /api/columns\<close> does with a body whose \<^verbatim>\<open>columns\<close> field is an array, on a
  file that can be written and holds a document whose columns are strings: the removed
  columns are the old ones that are not among the new, in their old order; every
  record loses exactly the keys that the removed columns name; the columns become the
  new array; the document is saved and returned with status 200.
\<close>

lemma post_columns_replaces:
  assumes "method' req = ''POST''" and "url req = ''/api/columns''"
    and "body req = JSONText (JObj kvs)" and "map_of kvs ''columns'' = Some (JArr cols)"
    and "DATA_FILE st = Holds d" and "fault st = None"
    and "\<forall>c \<in> set (columns d). is_string c"
    and "removed = filter (\<lambda>col. col \<notin> set cols) (columns d)"
    and "d' = \<lparr>columns = cols,
               records = map (\<lambda>r. r |` {k. JStr k \<notin> set removed}) (records d)\<rparr>"
  shows "requestListener req st =
           (\<lparr>status = 200,
             headers =
               [(''Content-Type'', ''application/json''),
                (''Access-Control-Allow-Origin'', ''*''),
                (''Access-Control-Allow-Methods'', ''GET, POST, DELETE, OPTIONS''),
                (''Access-Control-Allow-Headers'', ''Content-Type'')],
             content = Some (Whole d')\<rparr>,
            st\<lparr>calls := calls st @ [ReadFile, WriteFile], DATA_FILE := Holds d'\<rparr>)"
proof -
  have "parseBody req = Inr (JObj kvs)"
    using assms(3) by (simp add: parseBody_def)
  then show ?thesis
    using assms(1,2,8,9) POST_columns_array [OF _ assms(4,5,6,7), of req]
    by (simp add: requestListener_def try_block_def del: set_filter)
qed

text \<open>
  A body other than \<^verbatim>\<open>null\<close> that has no \<^verbatim>\<open>columns\<close> field, or one that is not an
  array, is answered 400, and the store is not touched.
\<close>

lemma post_columns_rejects:
  assumes "method' req = ''POST''" and "url req = ''/api/columns''"
    and "parseBody req = Inr b" and "b \<noteq> JNull"
    and "\<nexists>kvs cols. b = JObj kvs \<and> map_of kvs ''columns'' = Some (JArr cols)"
  shows \<open>requestListener req st =
           (\<lparr>status = 400,
             headers =
               [(''Content-Type'', ''application/json''),
                (''Access-Control-Allow-Origin'', ''*''),
                (''Access-Control-Allow-Methods'', ''GET, POST, DELETE, OPTIONS''),
                (''Access-Control-Allow-Headers'', ''Content-Type'')],
             content = Some (Message ''Invalid format: "columns" must be an array.'')\<rparr>,
            st)\<close>
proof -
  have "property b ''columns'' = Inr Undefined \<or>
        (\<exists>v. property b ''columns'' = Inr (Value v) \<and> (\<forall>cols. v \<noteq> JArr cols))"
    using assms(4,5)
    by (cases b) (auto simp: object_get_def Object_prototype_def split: option.splits)
  then show ?thesis
    using assms(1,2,3)
    by (auto simp: requestListener_def try_block_def POST_columns_def sendResponse_def
        split: json.splits)
qed

text \<open>
  C7 at the body \<^verbatim>\<open>null\<close>. The body has no \<^verbatim>\<open>columns\<close> field, but destructuring
  \<^verbatim>\<open>null\<close> throws a TypeError before the test for an array is reached; the answer is
  500, not 400. The store is not touched.
\<close>

theorem null_columns_body:
  "requestListener
       \<lparr>method' = ''POST'', url = ''/api/columns'', body = JSONText JNull\<rparr>
       \<lparr>DATA_FILE = Holds \<lparr>columns = [JStr ''a''], records = []\<rparr>, fault = None,
        calls = []\<rparr> =
     (\<lparr>status = 500,
       headers =
         [(''Content-Type'', ''application/json''),
          (''Access-Control-Allow-Origin'', ''*''),
          (''Access-Control-Allow-Methods'', ''GET, POST, DELETE, OPTIONS''),
          (''Access-Control-Allow-Headers'', ''Content-Type'')],
       content = Some (InternalServerError TypeError)\<rparr>,
      \<lparr>DATA_FILE = Holds \<lparr>columns = [JStr ''a''], records = []\<rparr>, fault = None,
       calls = []\<rparr>)"
  by (simp add: eval_defs)

section \<open>Documents of strings\<close>

lemma string_dataset_stringify:
  "string_dataset (JSON_stringify m) =
     ((\<forall>c \<in> set (columns m). is_string c) \<and>
      (\<forall>r \<in> set (records m). \<forall>v \<in> ran (stringify_object r). is_string v))"
  by (simp add: string_dataset_def JSON_stringify_def)

lemma string_dataset_initial [simp]: "string_dataset \<lparr>columns = [], records = []\<rparr>"
  by (simp add: string_dataset_def)

lemma readData_strings:
  assumes "\<forall>d. DATA_FILE st = Holds d \<longrightarrow> string_dataset d"
    and "readData st = (r, st1)"
  shows "(\<forall>d. DATA_FILE st1 = Holds d \<longrightarrow> string_dataset d) \<and>
         (\<forall>m. r = Inr m \<longrightarrow> string_dataset (JSON_stringify m))"
  using assms
  by (auto simp: readData_def writeFile_def Let_def
      split: file_state.splits if_splits option.splits write_fault.splits)

lemma writeData_strings:
  assumes "\<forall>d. DATA_FILE st = Holds d \<longrightarrow> string_dataset d"
    and "string_dataset (JSON_stringify m)"
    and "writeData m st = (r, st2)"
  shows "\<forall>d. DATA_FILE st2 = Holds d \<longrightarrow> string_dataset d"
  using assms
  by (auto simp: writeData_def writeFile_def Let_def
      split: option.splits write_fault.splits)

lemma or_empty_strings:
  assumes "\<forall>kvs. nr = JObj kvs \<longrightarrow> (\<forall>(k, v) \<in> set kvs. is_string v)"
    and "property nr k = Inr v" and "or_empty v = Value j"
  shows "is_string j"
proof (cases nr)
  case (JObj kvs)
  show ?thesis
  proof (cases "map_of kvs k")
    case None
    then show ?thesis
      using assms(2,3) JObj
      by (auto simp: object_get_def or_empty_def is_string_def split: if_splits)
  next
    case (Some x)
    then have "(k, x) \<in> set kvs" by (rule map_of_SomeD)
    then have "is_string x" using assms(1) JObj by auto
    then show ?thesis
      using assms(2,3) JObj Some
      by (auto simp: object_get_def or_empty_def is_string_def split: if_splits)
  qed
qed (use assms(2,3) in \<open>auto simp: or_empty_def is_string_def\<close>)

lemma set_property_strings:
  assumes "\<forall>k j. fst vr k = Some (Value j) \<longrightarrow> is_string j"
    and "\<forall>j. v = Value j \<longrightarrow> is_string j"
  shows "\<forall>k j. fst (set_property vr key v) k = Some (Value j) \<longrightarrow> is_string j"
  using assms
  by (auto simp: set_property_def Let_def split: jsval.splits json.splits)

lemma forEach_col_strings:
  assumes "\<forall>kvs. nr = JObj kvs \<longrightarrow> (\<forall>(k, v) \<in> set kvs. is_string v)"
    and "forEach_col nr cols vr = Inr vr'"
    and "\<forall>k j. fst vr k = Some (Value j) \<longrightarrow> is_string j"
  shows "\<forall>k j. fst vr' k = Some (Value j) \<longrightarrow> is_string j"
  using assms(2,3)
proof (induction cols arbitrary: vr)
  case Nil
  then show ?case by simp
next
  case (Cons col cols)
  from Cons.prems(1) obtain key v where key: "ToString col = Inr key"
    and v: "property nr key = Inr v"
    and rest: "forEach_col nr cols (set_property vr key (or_empty v)) = Inr vr'"
    by (auto split: sum.splits)
  have "\<forall>j. or_empty v = Value j \<longrightarrow> is_string j"
    using or_empty_strings [OF assms(1) v] by blast
  then have "\<forall>k j. fst (set_property vr key (or_empty v)) k = Some (Value j) \<longrightarrow> is_string j"
    using set_property_strings [OF Cons.prems(2)] by blast
  then show ?case using Cons.IH [OF rest] by blast
qed

lemma forEach_delete_le:
  "forEach_delete cs r = Inr r' \<Longrightarrow> r' k = Some v \<Longrightarrow> r k = Some v"
proof (induction cs arbitrary: r)
  case Nil
  then show ?case by simp
next
  case (Cons c cs)
  from Cons.prems(1) obtain key where "forEach_delete cs (r(key := None)) = Inr r'"
    by (auto split: sum.splits)
  from Cons.IH [OF this Cons.prems(2)] show ?case
    by (simp split: if_splits)
qed

lemma map_records_le:
  "map_records cs rs = Inr rs' \<Longrightarrow> r' \<in> set rs' \<Longrightarrow>
     \<exists>r \<in> set rs. \<forall>k v. r' k = Some v \<longrightarrow> r k = Some v"
proof (induction rs arbitrary: rs')
  case Nil
  then show ?case by simp
next
  case (Cons r0 rs)
  from Cons.prems(1) obtain n0 ns where n0: "forEach_delete cs r0 = Inr n0"
    and ns: "map_records cs rs = Inr ns" and rs': "rs' = n0 # ns"
    by (auto split: sum.splits)
  show ?case
  proof (cases "r' = n0")
    case True
    then show ?thesis using forEach_delete_le [OF n0] by auto
  next
    case False
    then have "r' \<in> set ns" using Cons.prems(2) rs' by simp
    from Cons.IH [OF ns this] show ?thesis by auto
  qed
qed

lemma stringify_object_Some:
  "(stringify_object r k = Some j) = (r k = Some (Value j))"
  by (simp add: stringify_object_def split: option.splits jsval.splits)

lemma stringify_ran:
  "(\<forall>v \<in> ran (stringify_object r). P v) = (\<forall>k j. r k = Some (Value j) \<longrightarrow> P j)"
  by (simp add: ran_def stringify_object_Some) blast


lemma GET_data_strings:
  assumes "\<forall>d. DATA_FILE st = Holds d \<longrightarrow> string_dataset d"
  shows "\<forall>d. DATA_FILE (snd (GET_data st)) = Holds d \<longrightarrow> string_dataset d"
proof (cases "readData st")
  case (Pair r st1)
  then show ?thesis
    using readData_strings [OF assms Pair]
    by (cases r) (simp_all add: GET_data_def)
qed

lemma DELETE_records_strings:
  assumes "\<forall>d. DATA_FILE st = Holds d \<longrightarrow> string_dataset d"
  shows "\<forall>d. DATA_FILE (snd (DELETE_records parts st)) = Holds d \<longrightarrow> string_dataset d"
proof (cases "readData st")
  case (Pair r st1)
  note rd = readData_strings [OF assms Pair]
  show ?thesis
  proof (cases r)
    case (Inl e)
    then show ?thesis using rd Pair by (simp add: DELETE_records_def)
  next
    case (Inr m)
    have m: "string_dataset (JSON_stringify m)" using rd Inr by simp
    have spl: "\<And>i. string_dataset (JSON_stringify (m\<lparr>records := splice i (records m)\<rparr>))"
      using m
      by (auto simp: string_dataset_stringify splice_def dest: in_set_takeD in_set_dropD)
    show ?thesis
    proof (cases "parseInt (indexStr parts)")
      case None
      then show ?thesis using rd Pair Inr by (simp add: DELETE_records_def)
    next
      case (Some i)
      show ?thesis
      proof (cases "i < 0 \<or> int (length (records m)) \<le> i")
        case True
        then show ?thesis using rd Pair Inr Some by (auto simp: DELETE_records_def)
      next
        case False
        obtain w st2 where w: "writeData (m\<lparr>records := splice (nat i) (records m)\<rparr>) st1 = (w, st2)"
          by (cases "writeData (m\<lparr>records := splice (nat i) (records m)\<rparr>) st1")
        have "\<forall>d. DATA_FILE st2 = Holds d \<longrightarrow> string_dataset d"
          using writeData_strings [OF _ spl w] rd by blast
        then show ?thesis
          using Pair Inr Some False w
          by (cases w) (auto simp: DELETE_records_def Let_def)
      qed
    qed
  qed
qed

lemma POST_records_strings:
  assumes "\<forall>d. DATA_FILE st = Holds d \<longrightarrow> string_dataset d"
    and "strings_request req" and "url req \<noteq> ''/api/columns''"
  shows "\<forall>d. DATA_FILE (snd (POST_records req st)) = Holds d \<longrightarrow> string_dataset d"
proof (cases "parseBody req")
  case (Inl e)
  then show ?thesis using assms(1) by (simp add: POST_records_def)
next
  case (Inr nr)
  have nr: "\<forall>kvs. nr = JObj kvs \<longrightarrow> (\<forall>(k, v) \<in> set kvs. is_string v)"
    using Inr assms(2,3)
    by (auto simp: parseBody_def strings_request_def list_all_iff split: stream.splits)
  show ?thesis
  proof (cases "typeof nr \<noteq> ''object'' \<or> isArray (Value nr)")
    case True
    then show ?thesis using assms(1) Inr by (auto simp: POST_records_def)
  next
    case False
    obtain r st1 where rd0: "readData st = (r, st1)" by (cases "readData st")
    note rd = readData_strings [OF assms(1) rd0]
    show ?thesis
    proof (cases r)
      case (Inl e)
      then show ?thesis using rd rd0 Inr False by (auto simp: POST_records_def)
    next
      case r: (Inr m)
      have m: "string_dataset (JSON_stringify m)" using rd r by simp
      show ?thesis
      proof (cases "forEach_col nr (columns m) (Map.empty, None)")
        case (Inl e)
        then show ?thesis using rd rd0 Inr False r by (auto simp: POST_records_def)
      next
        case vr: (Inr validRecord)
        have "\<forall>k j. fst validRecord k = Some (Value j) \<longrightarrow> is_string j"
          using forEach_col_strings [OF nr vr] by simp
        then have new:
          "string_dataset (JSON_stringify (m\<lparr>records := records m @ [fst validRecord]\<rparr>))"
          using m by (auto simp: string_dataset_stringify stringify_ran)
        obtain w st2
          where w: "writeData (m\<lparr>records := records m @ [fst validRecord]\<rparr>) st1 = (w, st2)"
          by (cases "writeData (m\<lparr>records := records m @ [fst validRecord]\<rparr>) st1")
        have "\<forall>d. DATA_FILE st2 = Holds d \<longrightarrow> string_dataset d"
          using writeData_strings [OF _ new w] rd by blast
        then show ?thesis
          using rd0 Inr False r vr w
          by (cases w) (auto simp: POST_records_def Let_def)
      qed
    qed
  qed
qed


lemma POST_columns_strings:
  assumes "\<forall>d. DATA_FILE st = Holds d \<longrightarrow> string_dataset d"
    and "strings_request req" and "url req = ''/api/columns''"
  shows "\<forall>d. DATA_FILE (snd (POST_columns req st)) = Holds d \<longrightarrow> string_dataset d"
proof (cases "parseBody req")
  case (Inl e)
  then show ?thesis using assms(1) by (simp add: POST_columns_def)
next
  case (Inr b)
  show ?thesis
  proof (cases "\<exists>cols. property b ''columns'' = Inr (Value (JArr cols))")
    case False
    then show ?thesis
      using assms(1) Inr
      by (auto simp: POST_columns_def split: sum.splits jsval.splits json.splits)
  next
    case True
    then obtain cols where cols: "property b ''columns'' = Inr (Value (JArr cols))" by blast
    then obtain kvs where b: "b = JObj kvs" and kv: "map_of kvs ''columns'' = Some (JArr cols)"
      by (cases b) (auto simp: object_get_def split: option.splits if_splits)
    have "body req = JSONText (JObj kvs)"
      using Inr b kv by (auto simp: parseBody_def split: stream.splits)
    then have strs: "\<forall>c \<in> set cols. is_string c"
      using assms(2,3) kv by (simp add: strings_request_def list_all_iff)
    obtain r st1 where rd0: "readData st = (r, st1)" by (cases "readData st")
    note rd = readData_strings [OF assms(1) rd0]
    show ?thesis
    proof (cases r)
      case (Inl e)
      then show ?thesis using rd rd0 Inr cols by (simp add: POST_columns_def)
    next
      case r: (Inr m)
      have m: "string_dataset (JSON_stringify m)" using rd r by simp
      let ?removed = "filter (\<lambda>col. \<not> includes_elem cols col) (columns m)"
      show ?thesis
      proof (cases "map_records ?removed (records m)")
        case (Inl e)
        then show ?thesis
          using rd rd0 Inr cols r by (simp add: POST_columns_def Let_def del: set_filter)
      next
        case upd: (Inr updatedRecords)
        define m' where "m' = m\<lparr>columns := cols, records := updatedRecords\<rparr>"
        have "\<forall>r' \<in> set updatedRecords. \<forall>k j. r' k = Some (Value j) \<longrightarrow> is_string j"
        proof (intro ballI allI impI)
          fix r' k j
          assume r': "r' \<in> set updatedRecords" and kj: "r' k = Some (Value j)"
          from map_records_le [OF upd r'] obtain r0 where r0: "r0 \<in> set (records m)"
            and le: "\<forall>k v. r' k = Some v \<longrightarrow> r0 k = Some v" by blast
          have "r0 k = Some (Value j)" using le kj by blast
          then show "is_string j"
            using m r0 by (auto simp: string_dataset_stringify stringify_ran)
        qed
        then have new: "string_dataset (JSON_stringify m')"
          using strs by (auto simp: m'_def string_dataset_stringify stringify_ran)
        obtain w st2 where w: "writeData m' st1 = (w, st2)" by (cases "writeData m' st1")
        have "\<forall>d. DATA_FILE st2 = Holds d \<longrightarrow> string_dataset d"
          using writeData_strings [OF _ new w] rd by blast
        then show ?thesis
          using rd0 Inr cols r upd w
          by (cases w) (auto simp: POST_columns_def Let_def m'_def simp del: set_filter)
      qed
    qed
  qed
qed

text \<open>
  C5, as the code has it. That every stored value is a string holds as an invariant
  under requests of strings: if the file, when it holds a document, holds one whose
  columns and record values are all strings, and the request posts only strings (as
  \<^verbatim>\<open>columns\<close> to \<^verbatim>\<open>/api/columns\<close>, as fields elsewhere), then whatever document the
  file holds after the request has only string columns and string record values.
\<close>

theorem strings_preserved:
  assumes "\<forall>d. DATA_FILE st = Holds d \<longrightarrow> string_dataset d"
    and "strings_request req"
    and "DATA_FILE (snd (requestListener req st)) = Holds d'"
  shows "string_dataset d'"
proof -
  have tb: "\<forall>d. DATA_FILE (snd (try_block req (split CHR ''/'' (url req)) st)) = Holds d
              \<longrightarrow> string_dataset d"
    using assms(1) GET_data_strings [OF assms(1)]
      POST_columns_strings [OF assms(1,2)]
      POST_records_strings [OF assms(1,2)]
      DELETE_records_strings [OF assms(1)]
    by (simp add: try_block_def)
  have "DATA_FILE (snd (requestListener req st)) = DATA_FILE st \<or>
        DATA_FILE (snd (requestListener req st)) =
          DATA_FILE (snd (try_block req (split CHR ''/'' (url req)) st))"
    by (cases "try_block req (split CHR ''/'' (url req)) st")
       (auto simp: requestListener_def split: sum.splits)
  then show ?thesis using assms(1,3) tb by auto
qed

theorem strings_preserved_witness:
  "string_dataset \<lparr>columns = [JStr ''a'', JStr ''b''], records = []\<rparr> \<and>
   strings_request \<lparr>method' = ''POST'', url = ''/api/records'',
                    body = JSONText (JObj [(''a'', JStr ''x'')])\<rparr> \<and>
   DATA_FILE (snd (requestListener
       \<lparr>method' = ''POST'', url = ''/api/records'',
        body = JSONText (JObj [(''a'', JStr ''x'')])\<rparr>
       \<lparr>DATA_FILE = Holds \<lparr>columns = [JStr ''a'', JStr ''b''], records = []\<rparr>,
        fault = None, calls = []\<rparr>)) =
     Holds \<lparr>columns = [JStr ''a'', JStr ''b''],
            records = [[''a'' \<mapsto> JStr ''x'', ''b'' \<mapsto> JStr '''']]\<rparr> \<and>
   string_dataset \<lparr>columns = [JStr ''a'', JStr ''b''],
                   records = [[''a'' \<mapsto> JStr ''x'', ''b'' \<mapsto> JStr '''']]\<rparr>"
proof -
  have ev: "DATA_FILE (snd (requestListener
       \<lparr>method' = ''POST'', url = ''/api/records'',
        body = JSONText (JObj [(''a'', JStr ''x'')])\<rparr>
       \<lparr>DATA_FILE = Holds \<lparr>columns = [JStr ''a'', JStr ''b''], records = []\<rparr>,
        fault = None, calls = []\<rparr>)) =
     Holds \<lparr>columns = [JStr ''a'', JStr ''b''],
            records = [[''a'' \<mapsto> JStr ''x'', ''b'' \<mapsto> JStr '''']]\<rparr>"
    by (simp add: eval_defs stringify_object_def fun_eq_iff)
  have d0: "string_dataset \<lparr>columns = [JStr ''a'', JStr ''b''], records = []\<rparr>"
    by (simp add: string_dataset_def is_string_def)
  have rq: "strings_request \<lparr>method' = ''POST'', url = ''/api/records'',
                    body = JSONText (JObj [(''a'', JStr ''x'')])\<rparr>"
    by (simp add: strings_request_def is_string_def)
  have "string_dataset \<lparr>columns = [JStr ''a'', JStr ''b''],
                   records = [[''a'' \<mapsto> JStr ''x'', ''b'' \<mapsto> JStr '''']]\<rparr>"
    using strings_preserved [OF _ rq ev] d0 by simp
  then show ?thesis using ev d0 rq by simp
qed

text \<open>
  The claim fails for the body \<^verbatim>\<open>{"a": true}\<close> on the columns \<^verbatim>\<open>["a"]\<close>: the record
  stored is \<^verbatim>\<open>{"a": true}\<close>, whose value is not a string.
\<close>

theorem strings_preserved_counterexample:
  "DATA_FILE (snd (requestListener
       \<lparr>method' = ''POST'', url = ''/api/records'',
        body = JSONText (JObj [(''a'', JBool True)])\<rparr>
       \<lparr>DATA_FILE = Holds \<lparr>columns = [JStr ''a''], records = []\<rparr>,
        fault = None, calls = []\<rparr>)) =
     Holds \<lparr>columns = [JStr ''a''], records = [[''a'' \<mapsto> JBool True]]\<rparr> \<and>
   \<not> is_string (JBool True) \<and>
   \<not> string_dataset \<lparr>columns = [JStr ''a''], records = [[''a'' \<mapsto> JBool True]]\<rparr>"
  by (simp add: eval_defs stringify_object_def fun_eq_iff string_dataset_def is_string_def)

end
